theory Spec2Isabelle
  imports Complex_Main "HOL-Library.Char_ord" "HOL-Library.List_Lexorder"
begin

section \<open>Data model of the recommendation engine\<close>

text \<open>
  The model follows \<^verbatim>\<open>src/recommender.py\<close>. Python floats are modelled by exact reals;
  Python strings by \<^typ>\<open>string\<close>; a \<^verbatim>\<open>dict\<close> literal by an association list in insertion
  order (the order \<^verbatim>\<open>items()\<close> iterates in), looked up with \<^const>\<open>map_of\<close>. Every
  exception the code can raise is a value of \<open>error\<close>, returned as \<open>Inl\<close>.
\<close>

datatype error = ValueError | ZeroDivisionError | IndexError

record JobRole =
  title :: string
  required_skills :: "string list"
  description :: string

text \<open>The keys \<^verbatim>\<open>title\<close>, \<^verbatim>\<open>skills\<close>, \<^verbatim>\<open>level\<close> of a course carry the prefix
  \<open>course_\<close>, since \<open>title\<close> is already the field of a job role.\<close>

record Course =
  course_title :: string
  course_skills :: "string list"
  course_level :: string

text \<open>\<^verbatim>\<open>{**job, 'match_score': ..., 'industry_alignment': ...}\<close>\<close>

record JobRecommendation = JobRole +
  match_score :: real
  industry_alignment :: "string option"

text \<open>\<^verbatim>\<open>{**course, 'missing_skills': ..., 'relevance_score': ..., 'skill_importance': ...,
  'experience_match': ...}\<close>\<close>

record CourseRecommendation = Course +
  missing_skills :: "string list"
  relevance_score :: real
  skill_importance :: real
  experience_match :: bool

text \<open>The attributes that \<^verbatim>\<open>__init__\<close> sets on \<^verbatim>\<open>self\<close>. The attribute
  \<^verbatim>\<open>vectorizer\<close> is a default \<^verbatim>\<open>TfidfVectorizer()\<close>; every use is a \<^verbatim>\<open>fit_transform\<close>,
  which refits it from the texts passed in and reads nothing fitted earlier, so it is
  the function \<open>fit_transform\<close> below and not a field.\<close>

record Recommender =
  skill_weights :: "(string \<times> real) list"
  industry_clusters :: "(string \<times> string list) list"
  job_roles :: "JobRole list"
  courses :: "Course list"

definition Recommender_init :: Recommender where
  "Recommender_init = \<lparr>
     skill_weights =
       [(''Python'', 1.2), (''Java'', 1.1), (''SQL'', 1.1),
        (''Machine Learning'', 1.3), (''AWS'', 1.2),
        (''Docker'', 1.1), (''Kubernetes'', 1.2)],
     industry_clusters =
       [(''web_development'', [''Python'', ''Java'', ''SQL'', ''Git'']),
        (''data_science'', [''Python'', ''R'', ''Machine Learning'', ''Statistics'']),
        (''cloud_devops'', [''Docker'', ''Kubernetes'', ''AWS'', ''Linux''])],
     job_roles =
       [\<lparr>title = ''Software Engineer'',
         required_skills = [''Python'', ''Java'', ''SQL'', ''Git'', ''Agile''],
         description = ''Develop and maintain software applications''\<rparr>,
        \<lparr>title = ''Data Scientist'',
         required_skills = [''Python'', ''R'', ''Machine Learning'', ''SQL'', ''Statistics''],
         description = ''Analyze complex data sets to drive business decisions''\<rparr>,
        \<lparr>title = ''DevOps Engineer'',
         required_skills = [''Docker'', ''Kubernetes'', ''CI/CD'', ''AWS'', ''Linux''],
         description = ''Implement and maintain deployment infrastructure''\<rparr>],
     courses =
       [\<lparr>course_title = ''Python Programming Masterclass'',
         course_skills = [''Python'', ''Data Structures'', ''Algorithms''],
         course_level = ''Intermediate''\<rparr>,
        \<lparr>course_title = ''Machine Learning Fundamentals'',
         course_skills = [''Python'', ''Machine Learning'', ''Statistics''],
         course_level = ''Advanced''\<rparr>,
        \<lparr>course_title = ''Cloud Computing Essentials'',
         course_skills = [''AWS'', ''Cloud Architecture'', ''DevOps''],
         course_level = ''Beginner''\<rparr>]\<rparr>"

text \<open>The dictionary \<^verbatim>\<open>analyzed_data\<close>, read only through \<^verbatim>\<open>.get\<close> with a default:
  \<open>None\<close> is an absent key. The fields carry the prefix \<open>in_\<close>, the source's
  parameter names \<^verbatim>\<open>skills\<close> and \<^verbatim>\<open>experience_level\<close> staying free for the functions.\<close>

record analyzed_data =
  in_skills :: "string list option"
  in_experience_level :: "string option"
  in_industry_preference :: "string option"

record Recommendations =
  job_recommendations :: "JobRecommendation list"
  course_recommendations :: "CourseRecommendation list"
  matched_industry :: "string option"

section \<open>Python primitives\<close>

text \<open>\<^verbatim>\<open>sep.join(xs)\<close>\<close>

fun join :: "string \<Rightarrow> string list \<Rightarrow> string" where
  "join sep [] = []"
| "join sep [x] = x"
| "join sep (x # y # ys) = x @ sep @ join sep (y # ys)"

text \<open>\<^verbatim>\<open>int(x)\<close> on a float truncates towards zero.\<close>

definition py_int :: "real \<Rightarrow> int" where
  "py_int x = (if 0 \<le> x then \<lfloor>x\<rfloor> else \<lceil>x\<rceil>)"

text \<open>\<^verbatim>\<open>d.get(k, default)\<close>\<close>

definition dict_get :: "('k \<times> 'v) list \<Rightarrow> 'k \<Rightarrow> 'v \<Rightarrow> 'v" where
  "dict_get d k dflt = (case map_of d k of None \<Rightarrow> dflt | Some v \<Rightarrow> v)"

text \<open>\<^verbatim>\<open>max(xs, key=key)\<close> on a non-empty sequence \<open>x # xs\<close>: the first maximal element is
  kept, a later one replaces it only when its key is strictly greater.\<close>

fun max_key :: "('a \<Rightarrow> real) \<Rightarrow> 'a \<Rightarrow> 'a list \<Rightarrow> 'a" where
  "max_key key best [] = best"
| "max_key key best (x # xs) = max_key key (if key best < key x then x else best) xs"

text \<open>\<^verbatim>\<open>xs.sort(key=key, reverse=True)\<close>: descending and stable, equal keys keep their
  order. \<^const>\<open>sort_key\<close> is a stable ascending insertion sort.\<close>

definition sort_reverse :: "('a \<Rightarrow> real) \<Rightarrow> 'a list \<Rightarrow> 'a list" where
  "sort_reverse key xs = sort_key (\<lambda>x. - key x) xs"

text \<open>\<^verbatim>\<open>s.lower()\<close>, on ASCII text.\<close>

definition lower_char :: "char \<Rightarrow> char" where
  "lower_char c =
     (if 65 \<le> (of_char c :: nat) \<and> (of_char c :: nat) \<le> 90
      then char_of (of_char c + 32 :: nat) else c)"

definition lower :: "string \<Rightarrow> string" where
  "lower s = map lower_char s"

section \<open>Skill weighting and industry matching\<close>

text \<open>
\<^verbatim>\<open>
    def _apply_skill_weights(self, skills):
        weighted_skills = []
        for skill in skills:
            weight = self.skill_weights.get(skill, 1.0)
            weighted_skills.extend([skill] * int(weight * 10))
        return ' '.join(weighted_skills)
\<close>
  The float products of the table are \<open>12.0\<close>, \<open>11.000000000000002\<close> and \<open>13.0\<close>, and
  \<open>10.0\<close> for the default: \<^verbatim>\<open>int\<close> truncates each to the integer the exact product has.
\<close>

fun weighted_tokens :: "Recommender \<Rightarrow> string list \<Rightarrow> string list" where
  "weighted_tokens self [] = []"
| "weighted_tokens self (skill # rest) =
     (let weight = dict_get (skill_weights self) skill 1.0
      in replicate (nat (py_int (weight * 10))) skill @ weighted_tokens self rest)"

definition apply_skill_weights :: "Recommender \<Rightarrow> string list \<Rightarrow> string" where
  "apply_skill_weights self skills = join '' '' (weighted_tokens self skills)"

text \<open>
\<^verbatim>\<open>
    def _get_industry_match(self, skills):
        industry_scores = defaultdict(float)
        for industry, cluster_skills in self.industry_clusters.items():
            common_skills = set(skills) & set(cluster_skills)
            industry_scores[industry] = len(common_skills) / len(cluster_skills)
        return max(industry_scores.items(), key=lambda x: x[1])[0] if industry_scores else None
\<close>
  The division raises \<^verbatim>\<open>ZeroDivisionError\<close> on an empty cluster.
\<close>

definition cluster_score :: "string list \<Rightarrow> string list \<Rightarrow> real" where
  "cluster_score skills cluster_skills =
     real (card (set skills \<inter> set cluster_skills)) / real (length cluster_skills)"

fun industry_scores :: "(string \<times> string list) list \<Rightarrow> string list \<Rightarrow> error + (string \<times> real) list" where
  "industry_scores [] skills = Inr []"
| "industry_scores ((industry, cluster_skills) # rest) skills =
     (if length cluster_skills = 0 then Inl ZeroDivisionError
      else case industry_scores rest skills of
             Inl e \<Rightarrow> Inl e
           | Inr scores \<Rightarrow> Inr ((industry, cluster_score skills cluster_skills) # scores))"

definition get_industry_match :: "Recommender \<Rightarrow> string list \<Rightarrow> error + string option" where
  "get_industry_match self skills =
     (case industry_scores (industry_clusters self) skills of
        Inl e \<Rightarrow> Inl e
      | Inr [] \<Rightarrow> Inr None
      | Inr (s # scores) \<Rightarrow> Inr (Some (fst (max_key snd s scores))))"

section \<open>The scikit-learn calls\<close>

text \<open>
  scikit-learn is a library the repository imports; its two calls are modelled here with
  the behaviour of their defaults, the arithmetic over the reals.

  \<^verbatim>\<open>TfidfVectorizer()\<close> with its defaults: the text is lower-cased and cut into the
  matches of \<^verbatim>\<open>\b\w\w+\b\<close>, the maximal runs of two or more word characters (ASCII
  letters, digits and the underscore here); a one-character run such as \<^verbatim>\<open>R\<close> is no token.
\<close>

definition is_word_char :: "char \<Rightarrow> bool" where
  "is_word_char c =
     (let n = (of_char c :: nat)
      in (48 \<le> n \<and> n \<le> 57) \<or> (65 \<le> n \<and> n \<le> 90) \<or> n = 95 \<or> (97 \<le> n \<and> n \<le> 122))"

fun word_runs :: "string \<Rightarrow> string \<Rightarrow> string list" where
  "word_runs cur [] = (if cur = [] then [] else [cur])"
| "word_runs cur (c # cs) =
     (if is_word_char c then word_runs (cur @ [c]) cs
      else (if cur = [] then [] else [cur]) @ word_runs [] cs)"

definition tokenize :: "string \<Rightarrow> string list" where
  "tokenize doc = filter (\<lambda>w. 2 \<le> length w) (word_runs [] (lower doc))"

text \<open>The smoothed inverse document frequency \<^verbatim>\<open>ln((1 + n) / (1 + df)) + 1\<close> of a term
  over the tokenised documents.\<close>

definition idf :: "string list list \<Rightarrow> string \<Rightarrow> real" where
  "idf docs t =
     ln (real (1 + length docs) / real (1 + length (filter (\<lambda>d. t \<in> set d) docs))) + 1"

text \<open>\<^verbatim>\<open>normalize(X, norm='l2')\<close> on one row: a row of norm zero is left as it is.\<close>

definition normalize_l2 :: "real list \<Rightarrow> real list" where
  "normalize_l2 row =
     (let norm = sqrt (sum_list (map (\<lambda>x. x * x) row))
      in map (\<lambda>x. x / (if norm = 0 then 1 else norm)) row)"

text \<open>The row of a tokenised document: per term of the vocabulary, the count in the
  document times the term's idf; the row is then normalised.\<close>

definition tfidf_row :: "string list list \<Rightarrow> string list \<Rightarrow> string list \<Rightarrow> real list" where
  "tfidf_row docs vocabulary d =
     normalize_l2 (map (\<lambda>t. real (count_list d t) * idf docs t) vocabulary)"

text \<open>\<^verbatim>\<open>fit_transform(raw_documents)\<close>: the vocabulary is the sorted set of all tokens, and
  an empty one raises \<^verbatim>\<open>ValueError\<close> (empty vocabulary).\<close>

definition fit_transform :: "string list \<Rightarrow> error + real list list" where
  "fit_transform raw_documents =
     (let docs = map tokenize raw_documents;
          vocabulary = sort (remdups (concat docs))
      in if vocabulary = [] then Inl ValueError
         else Inr (map (tfidf_row docs vocabulary) docs))"

definition dot :: "real list \<Rightarrow> real list \<Rightarrow> real" where
  "dot xs ys = sum_list (map (\<lambda>(x, y). x * y) (zip xs ys))"

text \<open>\<^verbatim>\<open>cosine_similarity(X, Y)\<close>: both matrices are normalised by row and multiplied; a
  matrix without rows raises \<^verbatim>\<open>ValueError\<close> (at least one sample is required).\<close>

definition cosine_similarity :: "real list list \<Rightarrow> real list list \<Rightarrow> error + real list list" where
  "cosine_similarity X Y =
     (if X = [] \<or> Y = [] then Inl ValueError
      else Inr (map (\<lambda>x. map (\<lambda>y. dot (normalize_l2 x) (normalize_l2 y)) Y) X))"

text \<open>The entry of that product for two tokenised documents of one fitted corpus.\<close>

definition cosine :: "string list list \<Rightarrow> string list \<Rightarrow> string list \<Rightarrow> string list \<Rightarrow> real" where
  "cosine docs vocabulary q d =
     dot (normalize_l2 (tfidf_row docs vocabulary q)) (normalize_l2 (tfidf_row docs vocabulary d))"

text \<open>
  Both recommenders compute the similarities of the last text to the others:
\<^verbatim>\<open>
        tfidf_matrix = self.vectorizer.fit_transform(texts)
        similarities = cosine_similarity(tfidf_matrix[-1:], tfidf_matrix[:-1])[0]
\<close>
\<close>

definition similarities :: "string list \<Rightarrow> error + real list" where
  "similarities texts =
     (case fit_transform texts of
        Inl e \<Rightarrow> Inl e
      | Inr tfidf_matrix \<Rightarrow>
          (case cosine_similarity (drop (length tfidf_matrix - 1) tfidf_matrix)
                                  (butlast tfidf_matrix) of
             Inl e \<Rightarrow> Inl e
           | Inr [] \<Rightarrow> Inl IndexError
           | Inr (row # _) \<Rightarrow> Inr row))"

section \<open>The job recommender\<close>

text \<open>\<^verbatim>\<open>self.industry_clusters.get(industry_match, [])\<close>, where \<^verbatim>\<open>industry_match\<close> may be
  \<^verbatim>\<open>None\<close>, which is no key of the dictionary.\<close>

definition cluster_of :: "Recommender \<Rightarrow> string option \<Rightarrow> string list" where
  "cluster_of self industry_match =
     (case industry_match of
        None \<Rightarrow> []
      | Some industry \<Rightarrow> dict_get (industry_clusters self) industry [])"

text \<open>
\<^verbatim>\<open>
        for idx, similarity in enumerate(base_similarities):
            if similarity > 0:
                job = self.job_roles[idx]
                industry_bonus = 0.2 if any(skill in self.industry_clusters.get(industry_match, [])
                                          for skill in job['required_skills']) else 0
                final_score = min(similarity + industry_bonus, 1.0)
                job_recommendations.append({
                    **job,
                    'match_score': float(final_score),
                    'industry_alignment': industry_match if industry_bonus > 0 else None
                })
\<close>
  \<open>job_entry\<close> is the dictionary appended for the job \<open>job\<close>; \<open>job_loop\<close> is the loop
  from index \<open>idx\<close> on, and the subscript \<^verbatim>\<open>self.job_roles[idx]\<close> raises \<^verbatim>\<open>IndexError\<close>
  out of range.
\<close>

definition industry_bonus :: "Recommender \<Rightarrow> string option \<Rightarrow> JobRole \<Rightarrow> real" where
  "industry_bonus self industry_match job =
     (if list_ex (\<lambda>skill. skill \<in> set (cluster_of self industry_match)) (required_skills job)
      then 0.2 else 0)"

definition job_entry :: "Recommender \<Rightarrow> string option \<Rightarrow> JobRole \<Rightarrow> real \<Rightarrow> JobRecommendation" where
  "job_entry self industry_match job similarity =
     (let final_score = min (similarity + industry_bonus self industry_match job) 1.0
      in \<lparr>title = title job, required_skills = required_skills job,
          description = description job,
          match_score = final_score,
          industry_alignment =
            (if industry_bonus self industry_match job > 0 then industry_match else None)\<rparr>)"

fun job_loop :: "Recommender \<Rightarrow> string option \<Rightarrow> nat \<Rightarrow> real list \<Rightarrow> error + JobRecommendation list" where
  "job_loop self industry_match idx [] = Inr []"
| "job_loop self industry_match idx (similarity # rest) =
     (if similarity > 0 then
        (if idx < length (job_roles self) then
           (case job_loop self industry_match (Suc idx) rest of
              Inl e \<Rightarrow> Inl e
            | Inr recs \<Rightarrow>
                Inr (job_entry self industry_match (job_roles self ! idx) similarity # recs))
         else Inl IndexError)
      else job_loop self industry_match (Suc idx) rest)"

text \<open>
\<^verbatim>\<open>
    def _recommend_jobs(self, weighted_skills, industry_match):
        job_texts = [' '.join(job['required_skills']) for job in self.job_roles]
        job_texts.append(weighted_skills)
        ...
        job_recommendations.sort(key=lambda x: x['match_score'], reverse=True)
        return job_recommendations[:3]
\<close>
\<close>

definition job_texts :: "Recommender \<Rightarrow> string \<Rightarrow> string list" where
  "job_texts self weighted_skills =
     map (\<lambda>job. join '' '' (required_skills job)) (job_roles self) @ [weighted_skills]"

definition recommend_jobs :: "Recommender \<Rightarrow> string \<Rightarrow> string option \<Rightarrow> error + JobRecommendation list" where
  "recommend_jobs self weighted_skills industry_match =
     (case similarities (job_texts self weighted_skills) of
        Inl e \<Rightarrow> Inl e
      | Inr base_similarities \<Rightarrow>
          (case job_loop self industry_match 0 base_similarities of
             Inl e \<Rightarrow> Inl e
           | Inr recs \<Rightarrow> Inr (take 3 (sort_reverse match_score recs))))"

section \<open>The course recommender\<close>

definition experience_levels :: "(string \<times> int) list" where
  "experience_levels = [(''beginner'', 0), (''intermediate'', 1), (''advanced'', 2)]"

text \<open>
\<^verbatim>\<open>
        for idx, similarity in enumerate(cosine_similarities):
            course = self.courses[idx]
            course_level = experience_levels.get(course['level'].lower(), 1)
            level_diff = abs(course_level - user_level)
            adjusted_similarity = similarity * (1 - 0.2 * level_diff)
            missing_skills = [skill for skill in course['skills']
                            if skill not in user_skills]
            if missing_skills:
                skill_importance = sum(self.skill_weights.get(skill, 1.0)
                                     for skill in missing_skills) / len(missing_skills)
                course_recommendations.append({
                    **course,
                    'missing_skills': missing_skills,
                    'relevance_score': float(adjusted_similarity),
                    'skill_importance': float(skill_importance),
                    'experience_match': course['level'] == experience_level
                })
\<close>
  \<open>missing\<close> is the list \<^verbatim>\<open>missing_skills\<close> of a course, \<open>course_entry\<close> the dictionary
  appended for it, and \<open>course_loop\<close> the loop from index \<open>idx\<close> on.
\<close>

definition missing :: "string list \<Rightarrow> Course \<Rightarrow> string list" where
  "missing user_skills course =
     filter (\<lambda>skill. skill \<notin> set user_skills) (course_skills course)"

definition course_entry :: "Recommender \<Rightarrow> string list \<Rightarrow> string \<Rightarrow> int \<Rightarrow> Course \<Rightarrow> real \<Rightarrow> CourseRecommendation" where
  "course_entry self user_skills experience_level user_level course similarity =
     (let level = dict_get experience_levels (lower (course_level course)) 1;
          level_diff = \<bar>level - user_level\<bar>;
          adjusted_similarity = similarity * (1 - 0.2 * real_of_int level_diff)
      in \<lparr>course_title = course_title course,
          course_skills = course_skills course,
          course_level = course_level course,
          missing_skills = missing user_skills course,
          relevance_score = adjusted_similarity,
          skill_importance =
            sum_list (map (\<lambda>skill. dict_get (skill_weights self) skill 1.0)
                          (missing user_skills course))
            / real (length (missing user_skills course)),
          experience_match = (course_level course = experience_level)\<rparr>)"

fun course_loop :: "Recommender \<Rightarrow> string list \<Rightarrow> string \<Rightarrow> int \<Rightarrow> nat \<Rightarrow> real list \<Rightarrow> error + CourseRecommendation list" where
  "course_loop self user_skills experience_level user_level idx [] = Inr []"
| "course_loop self user_skills experience_level user_level idx (similarity # rest) =
     (if idx < length (courses self) then
        (case course_loop self user_skills experience_level user_level (Suc idx) rest of
           Inl e \<Rightarrow> Inl e
         | Inr recs \<Rightarrow>
             (if missing user_skills (courses self ! idx) \<noteq> [] then
                Inr (course_entry self user_skills experience_level user_level
                       (courses self ! idx) similarity # recs)
              else Inr recs))
      else Inl IndexError)"

text \<open>
\<^verbatim>\<open>
    def _recommend_courses(self, weighted_skills, user_skills, experience_level):
        course_texts = [' '.join(course['skills']) for course in self.courses]
        course_texts.append(weighted_skills)
        ...
        user_level = experience_levels.get(experience_level.lower(), 1)
        ...
        course_recommendations.sort(
            key=lambda x: (x['relevance_score'] * 0.7 + x['skill_importance'] * 0.3),
            reverse=True)
        return course_recommendations[:3]
\<close>
\<close>

definition course_texts :: "Recommender \<Rightarrow> string \<Rightarrow> string list" where
  "course_texts self weighted_skills =
     map (\<lambda>course. join '' '' (course_skills course)) (courses self) @ [weighted_skills]"

definition course_key :: "CourseRecommendation \<Rightarrow> real" where
  "course_key x = relevance_score x * 0.7 + skill_importance x * 0.3"

definition recommend_courses :: "Recommender \<Rightarrow> string \<Rightarrow> string list \<Rightarrow> string \<Rightarrow> error + CourseRecommendation list" where
  "recommend_courses self weighted_skills user_skills experience_level =
     (case similarities (course_texts self weighted_skills) of
        Inl e \<Rightarrow> Inl e
      | Inr cosine_similarities \<Rightarrow>
          (let user_level = dict_get experience_levels (lower experience_level) 1
           in case course_loop self user_skills experience_level user_level 0
                     cosine_similarities of
                Inl e \<Rightarrow> Inl e
              | Inr recs \<Rightarrow> Inr (take 3 (sort_reverse course_key recs))))"

section \<open>The entry point\<close>

text \<open>
\<^verbatim>\<open>
    def get_recommendations(self, analyzed_data):
        skills = analyzed_data.get('skills', [])
        experience_level = analyzed_data.get('experience_level', 'intermediate')
        industry_preference = analyzed_data.get('industry_preference', None)
        weighted_skills = self._apply_skill_weights(skills)
        industry_match = self._get_industry_match(skills) if not industry_preference else industry_preference
        return {
            'job_recommendations': self._recommend_jobs(weighted_skills, industry_match),
            'course_recommendations': self._recommend_courses(weighted_skills, skills, experience_level),
            'matched_industry': industry_match
        }
\<close>
  \<^verbatim>\<open>not industry_preference\<close> holds of \<^verbatim>\<open>None\<close> and of the empty string.
\<close>

definition resolve_industry :: "Recommender \<Rightarrow> string list \<Rightarrow> string option \<Rightarrow> error + string option" where
  "resolve_industry self skills industry_preference =
     (if industry_preference = None \<or> industry_preference = Some []
      then get_industry_match self skills
      else Inr industry_preference)"

definition get_skills :: "analyzed_data \<Rightarrow> string list" where
  "get_skills ad = (case in_skills ad of None \<Rightarrow> [] | Some s \<Rightarrow> s)"

definition get_experience_level :: "analyzed_data \<Rightarrow> string" where
  "get_experience_level ad =
     (case in_experience_level ad of None \<Rightarrow> ''intermediate'' | Some l \<Rightarrow> l)"

definition get_recommendations :: "Recommender \<Rightarrow> analyzed_data \<Rightarrow> error + Recommendations" where
  "get_recommendations self ad =
     (let skills = get_skills ad;
          experience_level = get_experience_level ad;
          industry_preference = in_industry_preference ad;
          weighted_skills = apply_skill_weights self skills
      in case resolve_industry self skills industry_preference of
           Inl e \<Rightarrow> Inl e
         | Inr industry_match \<Rightarrow>
             (case recommend_jobs self weighted_skills industry_match of
                Inl e \<Rightarrow> Inl e
              | Inr jobs \<Rightarrow>
                  (case recommend_courses self weighted_skills skills experience_level of
                     Inl e \<Rightarrow> Inl e
                   | Inr course_recs \<Rightarrow>
                       Inr \<lparr>job_recommendations = jobs,
                            course_recommendations = course_recs,
                            matched_industry = industry_match\<rparr>)))"

section \<open>Notions of the specification\<close>

text \<open>The Skill Weighting as the specification words it: each skill token repeated
  \<open>round (w * 10)\<close> times, \<open>w\<close> the skill's weight in the table and \<open>1.0\<close> when it has
  none, joined by single spaces.\<close>

definition weight_spec :: "(string \<times> real) list \<Rightarrow> string list \<Rightarrow> string" where
  "weight_spec table skills =
     join '' '' (concat (map (\<lambda>skill. replicate (nat (round (dict_get table skill 1.0 * 10))) skill)
                             skills))"



section \<open>Lemmas on the library calls\<close>

lemma sum_list_map_nonneg: "(\<And>x. x \<in> set xs \<Longrightarrow> 0 \<le> f x) \<Longrightarrow> (0::real) \<le> sum_list (map f xs)"
  by (induction xs) auto

lemma member_le_sum_list_map:
  "(\<And>x. x \<in> set xs \<Longrightarrow> 0 \<le> f x) \<Longrightarrow> t \<in> set xs \<Longrightarrow> (f t :: real) \<le> sum_list (map f xs)"
proof (induction xs)
  case Nil
  then show ?case by simp
next
  case (Cons a xs)
  have nn: "0 \<le> sum_list (map f xs)"
    using Cons.prems(1) by (intro sum_list_map_nonneg) simp
  show ?case
  proof (cases "t = a")
    case True
    then show ?thesis using nn by simp
  next
    case False
    then have "f t \<le> sum_list (map f xs)"
      using Cons by simp
    moreover have "0 \<le> f a" using Cons.prems(1) by simp
    ultimately show ?thesis by simp
  qed
qed

lemma sum_list_map_zero: "(\<And>x. x \<in> set xs \<Longrightarrow> f x = 0) \<Longrightarrow> sum_list (map f xs) = (0::real)"
  by (induction xs) auto

lemma dot_map: "dot (map f V) (map g V) = sum_list (map (\<lambda>t. f t * g t) V)"
  by (induction V) (auto simp: dot_def)

lemma normalize_l2_scale: "\<exists>k>0. \<forall>f V. row = map f V \<longrightarrow> normalize_l2 row = map (\<lambda>t. f t * k) V"
proof -
  define norm where "norm = sqrt (sum_list (map (\<lambda>x. x * x) row))"
  define k where "k = 1 / (if norm = 0 then 1 else norm)"
  have "0 \<le> sum_list (map (\<lambda>x. x * x) row)"
    by (intro sum_list_map_nonneg) simp
  then have "0 \<le> norm" by (simp add: norm_def)
  then have "0 < k" by (simp add: k_def)
  moreover have "normalize_l2 row = map (\<lambda>x. x * k) row"
    by (simp add: normalize_l2_def norm_def k_def Let_def)
  ultimately show ?thesis by auto
qed

lemma idf_ge_1: "1 \<le> idf docs t"
proof -
  have "length (filter (\<lambda>d. t \<in> set d) docs) \<le> length docs" by simp
  then have "1 \<le> real (1 + length docs) / real (1 + length (filter (\<lambda>d. t \<in> set d) docs))"
    by simp
  then have "0 \<le> ln (real (1 + length docs) / real (1 + length (filter (\<lambda>d. t \<in> set d) docs)))"
    by (rule ln_ge_zero)
  then show ?thesis by (simp add: idf_def)
qed

lemma cosine_scaled:
  "\<exists>k>0. cosine docs V q d =
      k * sum_list (map (\<lambda>t. (real (count_list q t) * idf docs t) * (real (count_list d t) * idf docs t)) V)"
proof -
  let ?f = "\<lambda>d t. real (count_list d t) * idf docs t"
  obtain k1 where k1: "0 < k1" "tfidf_row docs V q = map (\<lambda>t. ?f q t * k1) V"
    using normalize_l2_scale[of "map (?f q) V"] unfolding tfidf_row_def by blast
  obtain k2 where k2: "0 < k2" "normalize_l2 (tfidf_row docs V q) = map (\<lambda>t. ?f q t * k1 * k2) V"
    using normalize_l2_scale[of "tfidf_row docs V q"] k1(2) by blast
  obtain k3 where k3: "0 < k3" "tfidf_row docs V d = map (\<lambda>t. ?f d t * k3) V"
    using normalize_l2_scale[of "map (?f d) V"] unfolding tfidf_row_def by blast
  obtain k4 where k4: "0 < k4" "normalize_l2 (tfidf_row docs V d) = map (\<lambda>t. ?f d t * k3 * k4) V"
    using normalize_l2_scale[of "tfidf_row docs V d"] k3(2) by blast
  have "cosine docs V q d = sum_list (map (\<lambda>t. (k1 * k2 * k3 * k4) * (?f q t * ?f d t)) V)"
    unfolding cosine_def k2(2) k4(2) dot_map by (simp add: mult_ac)
  also have "\<dots> = (k1 * k2 * k3 * k4) * sum_list (map (\<lambda>t. ?f q t * ?f d t) V)"
    by (simp add: sum_list_const_mult)
  finally have "cosine docs V q d = (k1 * k2 * k3 * k4) * sum_list (map (\<lambda>t. ?f q t * ?f d t) V)" .
  moreover have "0 < k1 * k2 * k3 * k4" using k1 k2 k3 k4 by simp
  ultimately show ?thesis by blast
qed

lemma cosine_nonneg: "0 \<le> cosine docs V q d"
proof -
  obtain k where k: "0 < k" "cosine docs V q d =
      k * sum_list (map (\<lambda>t. (real (count_list q t) * idf docs t) * (real (count_list d t) * idf docs t)) V)"
    using cosine_scaled by blast
  have "0 \<le> idf docs t" for t using idf_ge_1[of docs t] by simp
  then have "0 \<le> sum_list (map (\<lambda>t. (real (count_list q t) * idf docs t) * (real (count_list d t) * idf docs t)) V)"
    by (intro sum_list_map_nonneg) simp
  then show ?thesis using k by simp
qed

lemma cosine_zero_iff:
  assumes "set q \<inter> set d \<subseteq> set V"
  shows "cosine docs V q d = 0 \<longleftrightarrow> set q \<inter> set d = {}"
proof -
  let ?g = "\<lambda>t. (real (count_list q t) * idf docs t) * (real (count_list d t) * idf docs t)"
  obtain k where k: "0 < k" "cosine docs V q d = k * sum_list (map ?g V)"
    using cosine_scaled by blast
  have idf0: "0 < idf docs t" for t using idf_ge_1[of docs t] by simp
  have nn: "0 \<le> ?g t" for t using idf0[of t] by simp
  show ?thesis
  proof
    assume z: "cosine docs V q d = 0"
    show "set q \<inter> set d = {}"
    proof (rule ccontr)
      assume "set q \<inter> set d \<noteq> {}"
      then obtain t where t: "t \<in> set q" "t \<in> set d" by blast
      then have tV: "t \<in> set V" using assms by blast
      have "count_list q t \<noteq> 0" "count_list d t \<noteq> 0"
        using t by (simp_all add: count_list_0_iff)
      then have "0 < count_list q t" "0 < count_list d t"
        by simp_all
      then have "0 < ?g t" using idf0[of t] by simp
      moreover have "?g t \<le> sum_list (map ?g V)"
        using nn tV by (intro member_le_sum_list_map) auto
      ultimately have "0 < sum_list (map ?g V)" by linarith
      then have "0 < cosine docs V q d" using k by simp
      then show False using z by simp
    qed
  next
    assume e: "set q \<inter> set d = {}"
    have "?g t = 0" for t
    proof -
      have "t \<notin> set q \<or> t \<notin> set d" using e by blast
      then have "count_list q t = 0 \<or> count_list d t = 0"
        by (auto simp: count_list_0_iff)
      then show ?thesis by auto
    qed
    then have "sum_list (map ?g V) = 0" by (intro sum_list_map_zero) simp
    then show "cosine docs V q d = 0" using k by simp
  qed
qed

lemma fit_transform_eq:
  "fit_transform texts =
     (if concat (map tokenize texts) = [] then Inl ValueError
      else Inr (map (tfidf_row (map tokenize texts) (sort (remdups (concat (map tokenize texts)))))
                    (map tokenize texts)))"
proof -
  have "sort (remdups xs) = [] \<longleftrightarrow> xs = []" for xs :: "string list"
    by (metis length_0_conv length_sort remdups_eq_nil_iff)
  then show ?thesis
    by (simp add: fit_transform_def Let_def)
qed

lemma similarities_eq:
  assumes "corpus \<noteq> []" and "concat (map tokenize (corpus @ [q])) \<noteq> []"
  shows "similarities (corpus @ [q]) =
     Inr (map (\<lambda>d. cosine (map tokenize (corpus @ [q]))
                      (sort (remdups (concat (map tokenize (corpus @ [q])))))
                      (tokenize q) (tokenize d)) corpus)"
proof -
  let ?docs = "map tokenize (corpus @ [q])"
  let ?V = "sort (remdups (concat ?docs))"
  have ft: "fit_transform (corpus @ [q]) = Inr (map (tfidf_row ?docs ?V) ?docs)"
    using assms(2) by (simp only: fit_transform_eq if_False)
  have len: "length (map (tfidf_row ?docs ?V) ?docs) - 1 = length corpus" by simp
  have dr: "drop (length corpus) (map (tfidf_row ?docs ?V) ?docs) = [tfidf_row ?docs ?V (tokenize q)]"
    by simp
  have bl: "butlast (map (tfidf_row ?docs ?V) ?docs) = map (tfidf_row ?docs ?V) (map tokenize corpus)"
    by (simp add: butlast_append map_butlast[symmetric])
  show ?thesis
    unfolding similarities_def ft sum.case len dr bl
    using assms(1) by (simp add: cosine_similarity_def cosine_def o_def)
qed

lemma similarities_props:
  assumes "corpus \<noteq> []" and "concat (map tokenize (corpus @ [q])) \<noteq> []"
  shows "\<exists>sims. similarities (corpus @ [q]) = Inr sims \<and> length sims = length corpus \<and>
     (\<forall>i<length corpus. 0 \<le> sims ! i \<and>
        (sims ! i = 0 \<longleftrightarrow> set (tokenize q) \<inter> set (tokenize (corpus ! i)) = {}))"
proof -
  let ?docs = "map tokenize (corpus @ [q])"
  let ?V = "sort (remdups (concat ?docs))"
  let ?sims = "map (\<lambda>d. cosine ?docs ?V (tokenize q) (tokenize d)) corpus"
  have eq: "similarities (corpus @ [q]) = Inr ?sims"
    using assms by (rule similarities_eq)
  have "0 \<le> ?sims ! i \<and> (?sims ! i = 0 \<longleftrightarrow> set (tokenize q) \<inter> set (tokenize (corpus ! i)) = {})"
    if "i < length corpus" for i
  proof -
    have "set (tokenize q) \<subseteq> set ?V" by auto
    then have sub: "set (tokenize q) \<inter> set (tokenize (corpus ! i)) \<subseteq> set ?V" by blast
    show ?thesis using that cosine_zero_iff[OF sub] cosine_nonneg by simp
  qed
  then show ?thesis using eq by (intro exI[of _ ?sims]) simp
qed


subsection \<open>The two loops, index in range\<close>

lemma job_loop_eq:
  "idx + length sims \<le> length (job_roles self) \<Longrightarrow>
   job_loop self im idx sims =
     Inr (map (\<lambda>(i, s). job_entry self im (job_roles self ! i) s)
              (filter (\<lambda>(i, s). 0 < s) (zip [idx..<idx + length sims] sims)))"
proof (induction sims arbitrary: idx)
  case Nil
  then show ?case by simp
next
  case (Cons s sims)
  have up: "[idx..<idx + length (s # sims)] = idx # [Suc idx..<Suc idx + length sims]"
    by (subst upt_rec) simp
  have ih: "job_loop self im (Suc idx) sims =
     Inr (map (\<lambda>(i, s). job_entry self im (job_roles self ! i) s)
              (filter (\<lambda>(i, s). 0 < s) (zip [Suc idx..<Suc idx + length sims] sims)))"
    using Cons.prems by (intro Cons.IH) simp
  have lt: "idx < length (job_roles self)" using Cons.prems by simp
  show ?case unfolding up using ih lt by simp
qed

lemma course_loop_eq:
  "idx + length sims \<le> length (courses self) \<Longrightarrow>
   course_loop self us el ul idx sims =
     Inr (map (\<lambda>(i, s). course_entry self us el ul (courses self ! i) s)
              (filter (\<lambda>(i, s). missing us (courses self ! i) \<noteq> [])
                      (zip [idx..<idx + length sims] sims)))"
proof (induction sims arbitrary: idx)
  case Nil
  then show ?case by simp
next
  case (Cons s sims)
  have up: "[idx..<idx + length (s # sims)] = idx # [Suc idx..<Suc idx + length sims]"
    by (subst upt_rec) simp
  have ih: "course_loop self us el ul (Suc idx) sims =
     Inr (map (\<lambda>(i, s). course_entry self us el ul (courses self ! i) s)
              (filter (\<lambda>(i, s). missing us (courses self ! i) \<noteq> [])
                      (zip [Suc idx..<Suc idx + length sims] sims)))"
    using Cons.prems by (intro Cons.IH) simp
  have lt: "idx < length (courses self)" using Cons.prems by simp
  show ?case unfolding up using ih lt by simp
qed

lemma set_take_sort_reverse: "set (take n (sort_reverse key xs)) \<subseteq> set xs"
  using set_take_subset[of n "sort_reverse key xs"] by (simp add: sort_reverse_def)

lemma take_sort_reverse_all: "length xs \<le> n \<Longrightarrow> take n (sort_reverse key xs) = sort_reverse key xs"
  by (simp add: sort_reverse_def)

lemma length_sort_reverse: "length (sort_reverse key xs) = length xs"
  by (simp add: sort_reverse_def)

section \<open>Lemmas on the fixed catalog\<close>

lemma job_roles_init_length: "length (job_roles Recommender_init) = 3"
  by (simp add: Recommender_init_def)

lemma courses_init_length: "length (courses Recommender_init) = 3"
  by (simp add: Recommender_init_def)

lemma job_corpus_tokens:
  "map tokenize (map (\<lambda>job. join '' '' (required_skills job)) (job_roles Recommender_init)) =
     [[''python'', ''java'', ''sql'', ''git'', ''agile''],
      [''python'', ''machine'', ''learning'', ''sql'', ''statistics''],
      [''docker'', ''kubernetes'', ''ci'', ''cd'', ''aws'', ''linux'']]"
  by code_simp

lemma course_corpus_tokens:
  "map tokenize (map (\<lambda>course. join '' '' (course_skills course)) (courses Recommender_init)) =
     [[''python'', ''data'', ''structures'', ''algorithms''],
      [''python'', ''machine'', ''learning'', ''statistics''],
      [''aws'', ''cloud'', ''architecture'', ''devops'']]"
  by code_simp

lemma length3E:
  assumes "length xs = 3"
  obtains a b c where "xs = [a, b, c]"
proof -
  from assms obtain a ys where 1: "xs = a # ys" "length ys = 2"
    by (cases xs) auto
  then obtain b zs where 2: "ys = b # zs" "length zs = 1"
    by (cases ys) auto
  then obtain c where 3: "zs = [c]"
    by (cases zs) auto
  show ?thesis using that 1 2 3 by simp
qed

lemma job_similarities_init:
  fixes w :: string
  defines "corpus \<equiv> map (\<lambda>job. join '' '' (required_skills job)) (job_roles Recommender_init)"
  shows "\<exists>s0 s1 s2. similarities (job_texts Recommender_init w) = Inr [s0, s1, s2] \<and>
     0 \<le> s0 \<and> 0 \<le> s1 \<and> 0 \<le> s2 \<and>
     (s0 = 0 \<longleftrightarrow> set (tokenize w) \<inter> set (tokenize (corpus ! 0)) = {}) \<and>
     (s1 = 0 \<longleftrightarrow> set (tokenize w) \<inter> set (tokenize (corpus ! 1)) = {}) \<and>
     (s2 = 0 \<longleftrightarrow> set (tokenize w) \<inter> set (tokenize (corpus ! 2)) = {})"
proof -
  have ne: "corpus \<noteq> []" by (simp add: corpus_def Recommender_init_def)
  have len: "length corpus = 3" by (simp add: corpus_def Recommender_init_def)
  have voc: "concat (map tokenize (corpus @ [w])) \<noteq> []"
    unfolding corpus_def map_append job_corpus_tokens by simp
  obtain sims where sims: "similarities (corpus @ [w]) = Inr sims" "length sims = length corpus"
     and props: "\<forall>i<length corpus. 0 \<le> sims ! i \<and>
        (sims ! i = 0 \<longleftrightarrow> set (tokenize w) \<inter> set (tokenize (corpus ! i)) = {})"
    using similarities_props[OF ne voc] by blast
  obtain s0 s1 s2 where s: "sims = [s0, s1, s2]"
    using sims(2) len by (auto elim: length3E)
  have p0: "0 \<le> sims ! 0 \<and> (sims ! 0 = 0 \<longleftrightarrow> set (tokenize w) \<inter> set (tokenize (corpus ! 0)) = {})"
    using props len by simp
  have p1: "0 \<le> sims ! 1 \<and> (sims ! 1 = 0 \<longleftrightarrow> set (tokenize w) \<inter> set (tokenize (corpus ! 1)) = {})"
    using props len by simp
  have p2: "0 \<le> sims ! 2 \<and> (sims ! 2 = 0 \<longleftrightarrow> set (tokenize w) \<inter> set (tokenize (corpus ! 2)) = {})"
    using props len by simp
  have "job_texts Recommender_init w = corpus @ [w]"
    by (simp add: job_texts_def corpus_def)
  then show ?thesis using sims(1) p0 p1 p2 unfolding s by simp
qed

lemma course_similarities_init:
  fixes w :: string
  defines "corpus \<equiv> map (\<lambda>course. join '' '' (course_skills course)) (courses Recommender_init)"
  shows "\<exists>s0 s1 s2. similarities (course_texts Recommender_init w) = Inr [s0, s1, s2] \<and>
     0 \<le> s0 \<and> 0 \<le> s1 \<and> 0 \<le> s2 \<and>
     (s0 = 0 \<longleftrightarrow> set (tokenize w) \<inter> set (tokenize (corpus ! 0)) = {}) \<and>
     (s1 = 0 \<longleftrightarrow> set (tokenize w) \<inter> set (tokenize (corpus ! 1)) = {}) \<and>
     (s2 = 0 \<longleftrightarrow> set (tokenize w) \<inter> set (tokenize (corpus ! 2)) = {})"
proof -
  have ne: "corpus \<noteq> []" by (simp add: corpus_def Recommender_init_def)
  have len: "length corpus = 3" by (simp add: corpus_def Recommender_init_def)
  have voc: "concat (map tokenize (corpus @ [w])) \<noteq> []"
    unfolding corpus_def map_append course_corpus_tokens by simp
  obtain sims where sims: "similarities (corpus @ [w]) = Inr sims" "length sims = length corpus"
     and props: "\<forall>i<length corpus. 0 \<le> sims ! i \<and>
        (sims ! i = 0 \<longleftrightarrow> set (tokenize w) \<inter> set (tokenize (corpus ! i)) = {})"
    using similarities_props[OF ne voc] by blast
  obtain s0 s1 s2 where s: "sims = [s0, s1, s2]"
    using sims(2) len by (auto elim: length3E)
  have p0: "0 \<le> sims ! 0 \<and> (sims ! 0 = 0 \<longleftrightarrow> set (tokenize w) \<inter> set (tokenize (corpus ! 0)) = {})"
    using props len by simp
  have p1: "0 \<le> sims ! 1 \<and> (sims ! 1 = 0 \<longleftrightarrow> set (tokenize w) \<inter> set (tokenize (corpus ! 1)) = {})"
    using props len by simp
  have p2: "0 \<le> sims ! 2 \<and> (sims ! 2 = 0 \<longleftrightarrow> set (tokenize w) \<inter> set (tokenize (corpus ! 2)) = {})"
    using props len by simp
  have "course_texts Recommender_init w = corpus @ [w]"
    by (simp add: course_texts_def corpus_def)
  then show ?thesis using sims(1) p0 p1 p2 unfolding s by simp
qed

lemma industry_scores_init:
  "industry_scores (industry_clusters Recommender_init) skills =
     Inr [(''web_development'', cluster_score skills [''Python'', ''Java'', ''SQL'', ''Git'']),
          (''data_science'', cluster_score skills [''Python'', ''R'', ''Machine Learning'', ''Statistics'']),
          (''cloud_devops'', cluster_score skills [''Docker'', ''Kubernetes'', ''AWS'', ''Linux''])]"
  by (simp add: Recommender_init_def)

lemma get_industry_match_init: "\<exists>i. get_industry_match Recommender_init skills = Inr (Some i)"
  by (simp add: get_industry_match_def industry_scores_init)

lemma resolve_industry_init: "\<exists>im. resolve_industry Recommender_init skills pref = Inr im"
  using get_industry_match_init[of skills] by (auto simp: resolve_industry_def)

lemma recommend_jobs_sims:
  assumes "similarities (job_texts self w) = Inr sims" "length sims \<le> length (job_roles self)"
  shows "recommend_jobs self w im =
     Inr (take 3 (sort_reverse match_score
        (map (\<lambda>(i, s). job_entry self im (job_roles self ! i) s)
             (filter (\<lambda>(i, s). 0 < s) (zip [0..<length sims] sims)))))"
  using assms job_loop_eq[of 0 sims self im] by (simp add: recommend_jobs_def)

lemma recommend_courses_sims:
  assumes "similarities (course_texts self w) = Inr sims" "length sims \<le> length (courses self)"
  shows "recommend_courses self w us el =
     Inr (take 3 (sort_reverse course_key
        (map (\<lambda>(i, s). course_entry self us el (dict_get experience_levels (lower el) 1) (courses self ! i) s)
             (filter (\<lambda>(i, s). missing us (courses self ! i) \<noteq> []) (zip [0..<length sims] sims)))))"
  using assms course_loop_eq[of 0 sims self us el] by (simp add: recommend_courses_def Let_def)

lemma upt3: "[0..<3] = [0, 1, 2]"
  by (simp add: upt_rec)

section \<open>Lemmas on the recommenders\<close>

lemma industry_bonus_range: "0 \<le> industry_bonus self im job"
  by (simp add: industry_bonus_def)

lemma match_score_job_entry:
  "0 < s \<Longrightarrow> 0 < match_score (job_entry self im job s) \<and> match_score (job_entry self im job s) \<le> 1"
  using industry_bonus_range[of self im job] by (simp add: job_entry_def Let_def)

lemma job_loop_members:
  "job_loop self im idx sims = Inr recs \<Longrightarrow> j \<in> set recs \<Longrightarrow>
   \<exists>i s. i < length (job_roles self) \<and> s \<in> set sims \<and> 0 < s \<and>
         j = job_entry self im (job_roles self ! i) s"
proof (induction sims arbitrary: idx recs)
  case Nil
  then show ?case by simp
next
  case (Cons s sims)
  show ?case
  proof (cases "0 < s")
    case False
    then have "job_loop self im (Suc idx) sims = Inr recs"
      using Cons.prems(1) by simp
    from Cons.IH[OF this Cons.prems(2)] show ?thesis by auto
  next
    case True
    then have lt: "idx < length (job_roles self)"
      using Cons.prems(1) by (simp split: if_splits)
    then obtain recs' where r: "job_loop self im (Suc idx) sims = Inr recs'"
        "recs = job_entry self im (job_roles self ! idx) s # recs'"
      using Cons.prems(1) True by (auto split: sum.splits)
    show ?thesis
    proof (cases "j = job_entry self im (job_roles self ! idx) s")
      case True
      then show ?thesis using lt \<open>0 < s\<close> by auto
    next
      case False
      then have "j \<in> set recs'" using Cons.prems(2) r(2) by simp
      from Cons.IH[OF r(1) this] show ?thesis by auto
    qed
  qed
qed

lemma course_loop_members:
  "course_loop self us el ul idx sims = Inr recs \<Longrightarrow> c \<in> set recs \<Longrightarrow>
   \<exists>i s. i < length (courses self) \<and> s \<in> set sims \<and> missing us (courses self ! i) \<noteq> [] \<and>
         c = course_entry self us el ul (courses self ! i) s"
proof (induction sims arbitrary: idx recs)
  case Nil
  then show ?case by simp
next
  case (Cons s sims)
  have lt: "idx < length (courses self)"
    using Cons.prems(1) by (simp split: if_splits)
  then obtain recs' where r: "course_loop self us el ul (Suc idx) sims = Inr recs'"
    using Cons.prems(1) by (auto split: sum.splits)
  show ?case
  proof (cases "missing us (courses self ! idx) \<noteq> [] \<and> c = course_entry self us el ul (courses self ! idx) s")
    case True
    then show ?thesis using lt by auto
  next
    case False
    then have "c \<in> set recs'"
      using Cons.prems lt r by (auto split: if_splits)
    from Cons.IH[OF r this] show ?thesis by auto
  qed
qed

lemma recommend_jobs_range:
  assumes "recommend_jobs self w im = Inr jobs"
  shows "length jobs \<le> 3" and "j \<in> set jobs \<Longrightarrow> 0 < match_score j \<and> match_score j \<le> 1"
proof -
  obtain sims recs where l: "job_loop self im 0 sims = Inr recs"
      and j: "jobs = take 3 (sort_reverse match_score recs)"
    using assms by (auto simp: recommend_jobs_def split: sum.splits)
  show "length jobs \<le> 3" using j by simp
  show "0 < match_score j \<and> match_score j \<le> 1" if "j \<in> set jobs"
  proof -
    have "j \<in> set recs" using that j set_take_sort_reverse by fastforce
    from job_loop_members[OF l this] show ?thesis
      using match_score_job_entry by auto
  qed
qed

lemma recommend_courses_range:
  assumes "recommend_courses self w us el = Inr cs"
  shows "length cs \<le> 3"
    and "c \<in> set cs \<Longrightarrow> \<exists>i<length (courses self). missing us (courses self ! i) \<noteq> [] \<and>
           course_title c = course_title (courses self ! i) \<and>
           course_skills c = course_skills (courses self ! i) \<and>
           missing_skills c = missing us (courses self ! i)"
proof -
  obtain sims recs where l: "course_loop self us el (dict_get experience_levels (lower el) 1) 0 sims = Inr recs"
      and j: "cs = take 3 (sort_reverse course_key recs)"
    using assms by (auto simp: recommend_courses_def Let_def split: sum.splits)
  show "length cs \<le> 3" using j by simp
  show "\<exists>i<length (courses self). missing us (courses self ! i) \<noteq> [] \<and>
           course_title c = course_title (courses self ! i) \<and>
           course_skills c = course_skills (courses self ! i) \<and>
           missing_skills c = missing us (courses self ! i)" if "c \<in> set cs"
  proof -
    have "c \<in> set recs" using that j set_take_sort_reverse by fastforce
    from course_loop_members[OF l this] show ?thesis
      by (auto simp: course_entry_def Let_def)
  qed
qed

lemma recommend_jobs_init_Inr: "\<exists>jobs. recommend_jobs Recommender_init w im = Inr jobs"
proof -
  obtain s0 s1 s2 where "similarities (job_texts Recommender_init w) = Inr [s0, s1, s2]"
    using job_similarities_init[of w] by blast
  then show ?thesis
    using recommend_jobs_sims[of Recommender_init w "[s0, s1, s2]" im]
    by (simp add: job_roles_init_length)
qed

lemma recommend_courses_init_Inr: "\<exists>cs. recommend_courses Recommender_init w us el = Inr cs"
proof -
  obtain s0 s1 s2 where "similarities (course_texts Recommender_init w) = Inr [s0, s1, s2]"
    using course_similarities_init[of w] by blast
  then show ?thesis
    using recommend_courses_sims[of Recommender_init w "[s0, s1, s2]" us el]
    by (simp add: courses_init_length)
qed

lemma get_recommendations_init:
  "\<exists>im jobs cs.
     resolve_industry Recommender_init (get_skills ad) (in_industry_preference ad) = Inr im \<and>
     recommend_jobs Recommender_init (apply_skill_weights Recommender_init (get_skills ad)) im = Inr jobs \<and>
     recommend_courses Recommender_init (apply_skill_weights Recommender_init (get_skills ad))
        (get_skills ad) (get_experience_level ad) = Inr cs \<and>
     get_recommendations Recommender_init ad =
       Inr \<lparr>job_recommendations = jobs, course_recommendations = cs, matched_industry = im\<rparr>"
proof -
  obtain im where 1: "resolve_industry Recommender_init (get_skills ad) (in_industry_preference ad) = Inr im"
    using resolve_industry_init by blast
  obtain jobs where 2: "recommend_jobs Recommender_init (apply_skill_weights Recommender_init (get_skills ad)) im = Inr jobs"
    using recommend_jobs_init_Inr by blast
  obtain cs where 3: "recommend_courses Recommender_init (apply_skill_weights Recommender_init (get_skills ad))
        (get_skills ad) (get_experience_level ad) = Inr cs"
    using recommend_courses_init_Inr by blast
  show ?thesis using 1 2 3 by (simp add: get_recommendations_def Let_def)
qed

subsection \<open>The similarities and the lists of the fixed catalog\<close>

lemma job_token_sets:
  "set (tokenize (map (\<lambda>job. join '' '' (required_skills job)) (job_roles Recommender_init) ! 0))
     = {''python'', ''java'', ''sql'', ''git'', ''agile''}"
  "set (tokenize (map (\<lambda>job. join '' '' (required_skills job)) (job_roles Recommender_init) ! 1))
     = {''python'', ''machine'', ''learning'', ''sql'', ''statistics''}"
  "set (tokenize (map (\<lambda>job. join '' '' (required_skills job)) (job_roles Recommender_init) ! 2))
     = {''docker'', ''kubernetes'', ''ci'', ''cd'', ''aws'', ''linux''}"
  using job_corpus_tokens by (simp_all add: Recommender_init_def)

lemma course_token_sets:
  "set (tokenize (map (\<lambda>course. join '' '' (course_skills course)) (courses Recommender_init) ! 0))
     = {''python'', ''data'', ''structures'', ''algorithms''}"
  "set (tokenize (map (\<lambda>course. join '' '' (course_skills course)) (courses Recommender_init) ! 1))
     = {''python'', ''machine'', ''learning'', ''statistics''}"
  "set (tokenize (map (\<lambda>course. join '' '' (course_skills course)) (courses Recommender_init) ! 2))
     = {''aws'', ''cloud'', ''architecture'', ''devops''}"
  using course_corpus_tokens by (simp_all add: Recommender_init_def)

lemma job_sims:
  obtains s0 s1 s2 where
     "similarities (job_texts Recommender_init w) = Inr [s0, s1, s2]"
     "0 \<le> s0" "0 \<le> s1" "0 \<le> s2"
     "s0 = 0 \<longleftrightarrow> set (tokenize w) \<inter> {''python'', ''java'', ''sql'', ''git'', ''agile''} = {}"
     "s1 = 0 \<longleftrightarrow> set (tokenize w) \<inter> {''python'', ''machine'', ''learning'', ''sql'', ''statistics''} = {}"
     "s2 = 0 \<longleftrightarrow> set (tokenize w) \<inter> {''docker'', ''kubernetes'', ''ci'', ''cd'', ''aws'', ''linux''} = {}"
proof -
  from job_similarities_init[of w, unfolded job_token_sets]
  show ?thesis by (elim exE conjE) (rule that)
qed

lemma course_sims:
  obtains s0 s1 s2 where
     "similarities (course_texts Recommender_init w) = Inr [s0, s1, s2]"
     "0 \<le> s0" "0 \<le> s1" "0 \<le> s2"
     "s0 = 0 \<longleftrightarrow> set (tokenize w) \<inter> {''python'', ''data'', ''structures'', ''algorithms''} = {}"
     "s1 = 0 \<longleftrightarrow> set (tokenize w) \<inter> {''python'', ''machine'', ''learning'', ''statistics''} = {}"
     "s2 = 0 \<longleftrightarrow> set (tokenize w) \<inter> {''aws'', ''cloud'', ''architecture'', ''devops''} = {}"
proof -
  from course_similarities_init[of w, unfolded course_token_sets]
  show ?thesis by (elim exE conjE) (rule that)
qed

lemma recommend_jobs_init3:
  assumes "similarities (job_texts Recommender_init w) = Inr [s0, s1, s2]"
  shows "recommend_jobs Recommender_init w im =
       Inr (sort_reverse match_score
         (map (\<lambda>(i, s). job_entry Recommender_init im (job_roles Recommender_init ! i) s)
              (filter (\<lambda>(i, s). 0 < s) [(0, s0), (1, s1), (2, s2)])))"
proof -
  have z: "zip [0..<length [s0, s1, s2]] [s0, s1, s2] = [(0, s0), (1, s1), (2, s2)]"
    by (simp add: upt3)
  have "recommend_jobs Recommender_init w im =
       Inr (take 3 (sort_reverse match_score
         (map (\<lambda>(i, s). job_entry Recommender_init im (job_roles Recommender_init ! i) s)
              (filter (\<lambda>(i, s). 0 < s) (zip [0..<length [s0, s1, s2]] [s0, s1, s2])))))"
    using assms by (intro recommend_jobs_sims) (simp_all add: job_roles_init_length)
  then have "recommend_jobs Recommender_init w im =
       Inr (take 3 (sort_reverse match_score
         (map (\<lambda>(i, s). job_entry Recommender_init im (job_roles Recommender_init ! i) s)
              (filter (\<lambda>(i, s). 0 < s) [(0, s0), (1, s1), (2, s2)]))))"
    unfolding z .
  moreover have "length (map (\<lambda>(i, s). job_entry Recommender_init im (job_roles Recommender_init ! i) s)
              (filter (\<lambda>(i, s). 0 < s) [(0, s0), (1, s1), (2, s2)])) \<le> 3"
    by simp
  ultimately show ?thesis
    by (simp only: take_sort_reverse_all)
qed

lemma recommend_courses_init3:
  assumes "similarities (course_texts Recommender_init w) = Inr [s0, s1, s2]"
  shows "recommend_courses Recommender_init w us el =
       Inr (sort_reverse course_key
         (map (\<lambda>(i, s). course_entry Recommender_init us el
                           (dict_get experience_levels (lower el) 1) (courses Recommender_init ! i) s)
              (filter (\<lambda>(i, s). missing us (courses Recommender_init ! i) \<noteq> [])
                      [(0, s0), (1, s1), (2, s2)])))"
proof -
  have z: "zip [0..<length [s0, s1, s2]] [s0, s1, s2] = [(0, s0), (1, s1), (2, s2)]"
    by (simp add: upt3)
  have "recommend_courses Recommender_init w us el =
       Inr (take 3 (sort_reverse course_key
         (map (\<lambda>(i, s). course_entry Recommender_init us el
                           (dict_get experience_levels (lower el) 1) (courses Recommender_init ! i) s)
              (filter (\<lambda>(i, s). missing us (courses Recommender_init ! i) \<noteq> [])
                      (zip [0..<length [s0, s1, s2]] [s0, s1, s2])))))"
    using assms by (intro recommend_courses_sims) (simp_all add: courses_init_length)
  then have "recommend_courses Recommender_init w us el =
       Inr (take 3 (sort_reverse course_key
         (map (\<lambda>(i, s). course_entry Recommender_init us el
                           (dict_get experience_levels (lower el) 1) (courses Recommender_init ! i) s)
              (filter (\<lambda>(i, s). missing us (courses Recommender_init ! i) \<noteq> [])
                      [(0, s0), (1, s1), (2, s2)]))))"
    unfolding z .
  moreover have "length (map (\<lambda>(i, s). course_entry Recommender_init us el
                           (dict_get experience_levels (lower el) 1) (courses Recommender_init ! i) s)
              (filter (\<lambda>(i, s). missing us (courses Recommender_init ! i) \<noteq> [])
                      [(0, s0), (1, s1), (2, s2)])) \<le> 3"
    by simp
  ultimately show ?thesis
    by (simp only: take_sort_reverse_all)
qed

lemma get_recommendations_parts:
  assumes "resolve_industry self (get_skills ad) (in_industry_preference ad) = Inr im"
    and "recommend_jobs self (apply_skill_weights self (get_skills ad)) im = Inr jobs"
    and "recommend_courses self (apply_skill_weights self (get_skills ad))
           (get_skills ad) (get_experience_level ad) = Inr cs"
  shows "get_recommendations self ad =
       Inr \<lparr>job_recommendations = jobs, course_recommendations = cs, matched_industry = im\<rparr>"
  using assms by (simp add: get_recommendations_def Let_def)

subsection \<open>Facts of the catalog and of the weight table\<close>

lemma python_tokens:
  "tokenize (apply_skill_weights Recommender_init [''Python'']) = replicate 12 ''python''"
  by code_simp

lemma course_titles_distinct: "distinct (map course_title (courses Recommender_init))"
  by (simp add: Recommender_init_def)


lemma missing_empty_iff: "missing us course = [] \<longleftrightarrow> set (course_skills course) \<subseteq> set us"
  by (auto simp: missing_def filter_empty_conv)

lemma courses_init_nth:
  "courses Recommender_init ! 0 =
     \<lparr>course_title = ''Python Programming Masterclass'',
      course_skills = [''Python'', ''Data Structures'', ''Algorithms''],
      course_level = ''Intermediate''\<rparr>"
  "courses Recommender_init ! 1 =
     \<lparr>course_title = ''Machine Learning Fundamentals'',
      course_skills = [''Python'', ''Machine Learning'', ''Statistics''],
      course_level = ''Advanced''\<rparr>"
  "courses Recommender_init ! Suc 0 =
     \<lparr>course_title = ''Machine Learning Fundamentals'',
      course_skills = [''Python'', ''Machine Learning'', ''Statistics''],
      course_level = ''Advanced''\<rparr>"
  "courses Recommender_init ! 2 =
     \<lparr>course_title = ''Cloud Computing Essentials'',
      course_skills = [''AWS'', ''Cloud Architecture'', ''DevOps''],
      course_level = ''Beginner''\<rparr>"
  by (simp_all add: Recommender_init_def)

lemma skill_weights_init_values:
  "dict_get (skill_weights Recommender_init) skill 1 \<in> {1, 1.1, 1.2, 1.3}"
  by (simp add: dict_get_def Recommender_init_def)

lemma py_int_round_init:
  "py_int (dict_get (skill_weights Recommender_init) skill 1 * 10) =
   round (dict_get (skill_weights Recommender_init) skill 1 * 10)"
proof -
  have c: "py_int (1 * 10) = round (1 * 10 :: real)" "py_int (1.1 * 10) = round (1.1 * 10 :: real)"
    "py_int (1.2 * 10) = round (1.2 * 10 :: real)" "py_int (1.3 * 10) = round (1.3 * 10 :: real)"
    by (simp_all add: py_int_def)
  have "py_int (w * 10) = round (w * 10)" if "w \<in> {1, 1.1, 1.2, 1.3}" for w :: real
    using that by (elim insertE emptyE) (simp_all only: c)
  then show ?thesis using skill_weights_init_values by blast
qed

lemma weighted_tokens_init:
  "weighted_tokens Recommender_init skills =
     concat (map (\<lambda>skill. replicate (nat (round (dict_get (skill_weights Recommender_init) skill 1.0 * 10))) skill) skills)"
  by (induction skills) (simp_all add: Let_def py_int_round_init)

subsection \<open>The first maximal industry\<close>

lemma max_key_first:
  "\<exists>ys zs. best # xs = ys @ max_key key best xs # zs \<and>
     (\<forall>y \<in> set ys. key y < key (max_key key best xs)) \<and>
     (\<forall>z \<in> set zs. key z \<le> key (max_key key best xs))"
proof (induction xs arbitrary: best)
  case Nil
  show ?case by (intro exI[of _ "[]"]) simp
next
  case (Cons x xs)
  show ?case
  proof (cases "key best < key x")
    case True
    obtain ys zs where s: "x # xs = ys @ max_key key x xs # zs"
      and b: "\<forall>y \<in> set ys. key y < key (max_key key x xs)"
      and a: "\<forall>z \<in> set zs. key z \<le> key (max_key key x xs)"
      using Cons.IH[of x] by blast
    have "x \<in> set (ys @ max_key key x xs # zs)" using s by (metis list.set_intros(1))
    then have "key x \<le> key (max_key key x xs)" using a b by auto
    then have "key best < key (max_key key x xs)" using True by simp
    then have "\<forall>y \<in> set (best # ys). key y < key (max_key key x xs)" using b by simp
    moreover have "best # x # xs = (best # ys) @ max_key key x xs # zs" using s by simp
    ultimately show ?thesis using a True by (simp only: max_key.simps if_True) blast
  next
    case False
    obtain ys zs where s: "best # xs = ys @ max_key key best xs # zs"
      and b: "\<forall>y \<in> set ys. key y < key (max_key key best xs)"
      and a: "\<forall>z \<in> set zs. key z \<le> key (max_key key best xs)"
      using Cons.IH[of best] by blast
    show ?thesis
    proof (cases ys)
      case Nil
      have "best # xs = max_key key best xs # zs"
        using s unfolding Nil append_Nil .
      then have e: "max_key key best xs = best" "xs = zs" by (metis list.inject)+
      have "best # x # xs = [] @ max_key key best xs # (x # zs)"
        unfolding e(1) using e(2) by simp
      moreover have "\<forall>z \<in> set (x # zs). key z \<le> key (max_key key best xs)"
        using a False unfolding e(1) by simp
      ultimately show ?thesis using False
        by (simp only: max_key.simps if_False) (metis empty_iff empty_set)
    next
      case (Cons y ys')
      have "best # xs = y # (ys' @ max_key key best xs # zs)"
        using s unfolding Cons append_Cons .
      then have y: "y = best" and xs: "xs = ys' @ max_key key best xs # zs"
        by (metis list.inject)+
      have "best \<in> set ys" unfolding Cons y by simp
      then have lt: "key best < key (max_key key best xs)" using b by blast
      have "\<forall>y \<in> set ys'. key y < key (max_key key best xs)"
        using b unfolding Cons by simp
      then have "\<forall>y \<in> set (best # x # ys'). key y < key (max_key key best xs)"
        using False lt by auto
      moreover have "best # x # xs = (best # x # ys') @ max_key key best xs # zs"
        unfolding append_Cons by (rule arg_cong[where f = "\<lambda>l. best # x # l", OF xs])
      ultimately show ?thesis using a False
        by (simp only: max_key.simps if_False) blast
    qed
  qed
qed

lemma cluster_score_cong: "set S = set S' \<Longrightarrow> cluster_score S c = cluster_score S' c"
  by (simp add: cluster_score_def)

lemma industry_scores_cong:
  assumes "set S = set S'"
  shows "industry_scores cl S = industry_scores cl S'"
proof (induction cl)
  case Nil
  show ?case by simp
next
  case (Cons a cl)
  obtain i c where a: "a = (i, c)" by (cases a)
  have "cluster_score S c = cluster_score S' c" using assms by (rule cluster_score_cong)
  then show ?case using Cons by (simp add: a split: sum.splits)
qed

lemma get_industry_match_cong:
  "set S = set S' \<Longrightarrow> get_industry_match self S = get_industry_match self S'"
  by (simp add: get_industry_match_def industry_scores_cong[of S S'])

lemma industry_scores_init_map:
  "industry_scores (industry_clusters Recommender_init) S =
     Inr (map (\<lambda>(industry, cluster_skills). (industry, cluster_score S cluster_skills))
              (industry_clusters Recommender_init))"
  by (simp add: Recommender_init_def)

lemma get_recommendations_matched:
  assumes "get_recommendations self ad = Inr r"
  shows "resolve_industry self (get_skills ad) (in_industry_preference ad) = Inr (matched_industry r)"
  using assms by (auto simp: get_recommendations_def Let_def split: sum.splits)

subsection \<open>Recommended jobs and their similarities\<close>




lemma welding_tokens:
  "tokenize (apply_skill_weights Recommender_init [''Welding'']) = replicate 10 ''welding''"
  by code_simp



subsection \<open>Skill lists that meet no cluster\<close>












subsection \<open>Profiles without skills, and the profile of one unknown skill\<close>

lemma weighted_tokens_Nil: "apply_skill_weights self [] = []"
  by (simp add: apply_skill_weights_def)

lemma tokenize_Nil: "tokenize [] = []"
  by (simp add: tokenize_def lower_def)

lemma empty_query_job_sims: "similarities (job_texts Recommender_init []) = Inr [0, 0, 0]"
proof -
  obtain s0 s1 s2 where s: "similarities (job_texts Recommender_init []) = Inr [s0, s1, s2]"
    and z: "s0 = 0 \<longleftrightarrow> set (tokenize []) \<inter> {''python'', ''java'', ''sql'', ''git'', ''agile''} = {}"
     "s1 = 0 \<longleftrightarrow> set (tokenize []) \<inter> {''python'', ''machine'', ''learning'', ''sql'', ''statistics''} = {}"
     "s2 = 0 \<longleftrightarrow> set (tokenize []) \<inter> {''docker'', ''kubernetes'', ''ci'', ''cd'', ''aws'', ''linux''} = {}"
    by (rule job_sims[of "[]"])
  have "s0 = 0" "s1 = 0" "s2 = 0" using z unfolding tokenize_Nil by simp_all
  then show ?thesis using s by simp
qed

lemma empty_query_course_sims: "similarities (course_texts Recommender_init []) = Inr [0, 0, 0]"
proof -
  obtain s0 s1 s2 where s: "similarities (course_texts Recommender_init []) = Inr [s0, s1, s2]"
    and z: "s0 = 0 \<longleftrightarrow> set (tokenize []) \<inter> {''python'', ''data'', ''structures'', ''algorithms''} = {}"
     "s1 = 0 \<longleftrightarrow> set (tokenize []) \<inter> {''python'', ''machine'', ''learning'', ''statistics''} = {}"
     "s2 = 0 \<longleftrightarrow> set (tokenize []) \<inter> {''aws'', ''cloud'', ''architecture'', ''devops''} = {}"
    by (rule course_sims[of "[]"])
  have "s0 = 0" "s1 = 0" "s2 = 0" using z unfolding tokenize_Nil by simp_all
  then show ?thesis using s by simp
qed

lemma course_entry_zero:
  "relevance_score (course_entry self us el ul course 0) = 0"
  "course_title (course_entry self us el ul course s) = course_title course"
  "course_level (course_entry self us el ul course s) = course_level course"
  "missing_skills (course_entry self us el ul course s) = missing us course"
  "experience_match (course_entry self us el ul course s) = (course_level course = el)"
  by (simp_all add: course_entry_def Let_def)

lemma skill_importance_init_no_skills:
  "skill_importance (course_entry Recommender_init [] el ul (courses Recommender_init ! 0) s) = 16 / 15"
  "skill_importance (course_entry Recommender_init [] el ul (courses Recommender_init ! Suc 0) s) = 7 / 6"
  "skill_importance (course_entry Recommender_init [] el ul (courses Recommender_init ! 2) s) = 16 / 15"
  unfolding courses_init_nth
  by (simp_all add: course_entry_def Let_def missing_def dict_get_def Recommender_init_def)

lemma empty_skills_courses:
  "\<exists>cs. recommend_courses Recommender_init [] [] el = Inr cs \<and>
     map course_title cs = [''Machine Learning Fundamentals'', ''Python Programming Masterclass'',
                            ''Cloud Computing Essentials''] \<and>
     map relevance_score cs = [0, 0, 0]"
proof -
  let ?ul = "dict_get experience_levels (lower el) 1"
  let ?e = "\<lambda>i. course_entry Recommender_init [] el ?ul (courses Recommender_init ! i) 0"
  have m: "missing [] (courses Recommender_init ! 0) \<noteq> []"
     "missing [] (courses Recommender_init ! Suc 0) \<noteq> []"
     "missing [] (courses Recommender_init ! 2) \<noteq> []"
    unfolding courses_init_nth by (simp_all add: missing_def)
  have k: "course_key (?e 0) = 0.32" "course_key (?e (Suc 0)) = 0.35" "course_key (?e 2) = 0.32"
    unfolding course_key_def course_entry_zero skill_importance_init_no_skills by simp_all
  have "recommend_courses Recommender_init [] [] el =
     Inr (sort_reverse course_key [?e 0, ?e (Suc 0), ?e 2])"
    using recommend_courses_init3[OF empty_query_course_sims, of "[]" el] m by simp
  also have "sort_reverse course_key [?e 0, ?e (Suc 0), ?e 2] = [?e (Suc 0), ?e 0, ?e 2]"
    unfolding sort_reverse_def by (simp add: k)
  finally have "recommend_courses Recommender_init [] [] el = Inr [?e (Suc 0), ?e 0, ?e 2]" .
  then show ?thesis
    by (simp add: course_entry_zero courses_init_nth)
qed

lemma welding_job_sims:
  "similarities (job_texts Recommender_init (apply_skill_weights Recommender_init [''Welding''])) =
     Inr [0, 0, 0]"
proof -
  let ?w = "apply_skill_weights Recommender_init [''Welding'']"
  obtain s0 s1 s2 where s: "similarities (job_texts Recommender_init ?w) = Inr [s0, s1, s2]"
    and z: "s0 = 0 \<longleftrightarrow> set (tokenize ?w) \<inter> {''python'', ''java'', ''sql'', ''git'', ''agile''} = {}"
     "s1 = 0 \<longleftrightarrow> set (tokenize ?w) \<inter> {''python'', ''machine'', ''learning'', ''sql'', ''statistics''} = {}"
     "s2 = 0 \<longleftrightarrow> set (tokenize ?w) \<inter> {''docker'', ''kubernetes'', ''ci'', ''cd'', ''aws'', ''linux''} = {}"
    by (rule job_sims[of ?w])
  have "s0 = 0" "s1 = 0" "s2 = 0" using z unfolding welding_tokens by simp_all
  then show ?thesis using s by simp
qed

lemma welding_course_sims:
  "similarities (course_texts Recommender_init (apply_skill_weights Recommender_init [''Welding''])) =
     Inr [0, 0, 0]"
proof -
  let ?w = "apply_skill_weights Recommender_init [''Welding'']"
  obtain s0 s1 s2 where s: "similarities (course_texts Recommender_init ?w) = Inr [s0, s1, s2]"
    and z: "s0 = 0 \<longleftrightarrow> set (tokenize ?w) \<inter> {''python'', ''data'', ''structures'', ''algorithms''} = {}"
     "s1 = 0 \<longleftrightarrow> set (tokenize ?w) \<inter> {''python'', ''machine'', ''learning'', ''statistics''} = {}"
     "s2 = 0 \<longleftrightarrow> set (tokenize ?w) \<inter> {''aws'', ''cloud'', ''architecture'', ''devops''} = {}"
    by (rule course_sims[of ?w])
  have "s0 = 0" "s1 = 0" "s2 = 0" using z unfolding welding_tokens by simp_all
  then show ?thesis using s by simp
qed

lemma skill_importance_init_welding:
  "skill_importance (course_entry Recommender_init [''Welding''] el ul (courses Recommender_init ! 0) s) = 16 / 15"
  "skill_importance (course_entry Recommender_init [''Welding''] el ul (courses Recommender_init ! Suc 0) s) = 7 / 6"
  "skill_importance (course_entry Recommender_init [''Welding''] el ul (courses Recommender_init ! 2) s) = 16 / 15"
  unfolding courses_init_nth
  by (simp_all add: course_entry_def Let_def missing_def dict_get_def Recommender_init_def)

lemma welding_courses:
  "\<exists>cs. recommend_courses Recommender_init (apply_skill_weights Recommender_init [''Welding''])
          [''Welding''] el = Inr cs \<and>
     map course_title cs = [''Machine Learning Fundamentals'', ''Python Programming Masterclass'',
                            ''Cloud Computing Essentials''] \<and>
     map relevance_score cs = [0, 0, 0] \<and>
     map missing_skills cs =
       [[''Python'', ''Machine Learning'', ''Statistics''],
        [''Python'', ''Data Structures'', ''Algorithms''],
        [''AWS'', ''Cloud Architecture'', ''DevOps'']] \<and>
     map course_key cs = [0.35, 0.32, 0.32]"
proof -
  let ?ul = "dict_get experience_levels (lower el) 1"
  let ?e = "\<lambda>i. course_entry Recommender_init [''Welding''] el ?ul (courses Recommender_init ! i) 0"
  have m: "missing [''Welding''] (courses Recommender_init ! 0) = [''Python'', ''Data Structures'', ''Algorithms'']"
     "missing [''Welding''] (courses Recommender_init ! Suc 0) = [''Python'', ''Machine Learning'', ''Statistics'']"
     "missing [''Welding''] (courses Recommender_init ! 2) = [''AWS'', ''Cloud Architecture'', ''DevOps'']"
    unfolding courses_init_nth by (simp_all add: missing_def)
  have k: "course_key (?e 0) = 0.32" "course_key (?e (Suc 0)) = 0.35" "course_key (?e 2) = 0.32"
    unfolding course_key_def course_entry_zero skill_importance_init_welding by simp_all
  have "recommend_courses Recommender_init (apply_skill_weights Recommender_init [''Welding''])
          [''Welding''] el =
     Inr (sort_reverse course_key [?e 0, ?e (Suc 0), ?e 2])"
    using recommend_courses_init3[OF welding_course_sims, of "[''Welding'']" el] by (simp add: m)
  also have "sort_reverse course_key [?e 0, ?e (Suc 0), ?e 2] = [?e (Suc 0), ?e 0, ?e 2]"
    unfolding sort_reverse_def by (simp add: k)
  finally have "recommend_courses Recommender_init (apply_skill_weights Recommender_init [''Welding''])
          [''Welding''] el = Inr [?e (Suc 0), ?e 0, ?e 2]" .
  moreover have "map course_title [?e (Suc 0), ?e 0, ?e 2] =
      [''Machine Learning Fundamentals'', ''Python Programming Masterclass'',
       ''Cloud Computing Essentials'']"
    by (simp add: course_entry_zero courses_init_nth)
  moreover have "map relevance_score [?e (Suc 0), ?e 0, ?e 2] = [0, 0, 0]"
    by (simp add: course_entry_zero)
  moreover have "map missing_skills [?e (Suc 0), ?e 0, ?e 2] =
       [[''Python'', ''Machine Learning'', ''Statistics''],
        [''Python'', ''Data Structures'', ''Algorithms''],
        [''AWS'', ''Cloud Architecture'', ''DevOps'']]"
    by (simp add: course_entry_zero m)
  moreover have "map course_key [?e (Suc 0), ?e 0, ?e 2] = [0.35, 0.32, 0.32]"
    by (simp only: list.map k)
  ultimately show ?thesis
    by (intro exI[of _ "[?e (Suc 0), ?e 0, ?e 2]"] conjI)
qed

subsection \<open>The experience levels\<close>

lemma filter_sort_reverse: "filter P (sort_reverse key xs) = sort_reverse key (filter P xs)"
  by (simp add: sort_reverse_def filter_sort)

lemma beginner_levels:
  "dict_get experience_levels (lower ''beginner'') 1 = 0"
  "dict_get experience_levels (lower ''Beginner'') 1 = 0"
  by code_simp+

subsection \<open>The tokens of a weighted skill text\<close>















section \<open>The claims\<close>

text \<open>
  C1. For every profile, whatever the skill list, the experience level and the industry
  preference, \<open>get_recommendations\<close> returns, the list of job recommendations has at
  most three entries and each \<open>match_score\<close> lies in \<open>[0, 1]\<close>, and the list of course
  recommendations has at most three entries.
\<close>

theorem recommendation_lists_bounded:
  "\<exists>r. get_recommendations Recommender_init ad = Inr r \<and>
       length (job_recommendations r) \<le> 3 \<and>
       (\<forall>j \<in> set (job_recommendations r). 0 \<le> match_score j \<and> match_score j \<le> 1) \<and>
       length (course_recommendations r) \<le> 3"
proof -
  obtain im jobs cs where
    j: "recommend_jobs Recommender_init (apply_skill_weights Recommender_init (get_skills ad)) im = Inr jobs"
    and c: "recommend_courses Recommender_init (apply_skill_weights Recommender_init (get_skills ad))
        (get_skills ad) (get_experience_level ad) = Inr cs"
    and r: "get_recommendations Recommender_init ad =
       Inr \<lparr>job_recommendations = jobs, course_recommendations = cs, matched_industry = im\<rparr>"
    using get_recommendations_init[of ad] by blast
  have "length jobs \<le> 3" using recommend_jobs_range(1)[OF j] .
  moreover have "\<forall>j \<in> set jobs. 0 \<le> match_score j \<and> match_score j \<le> 1"
    using recommend_jobs_range(2)[OF j] by fastforce
  moreover have "length cs \<le> 3" using recommend_courses_range(1)[OF c] .
  ultimately show ?thesis using r by simp
qed

theorem recommendation_lists_bounded_witness:
  "\<exists>r. get_recommendations Recommender_init
          \<lparr>in_skills = Some [''Python''], in_experience_level = None,
           in_industry_preference = None\<rparr> = Inr r \<and>
       job_recommendations r \<noteq> [] \<and>
       length (job_recommendations r) \<le> 3 \<and>
       0 \<le> match_score (hd (job_recommendations r)) \<and>
       match_score (hd (job_recommendations r)) \<le> 1 \<and>
       length (course_recommendations r) \<le> 3"
proof -
  define ad where "ad = \<lparr>in_skills = Some [''Python''], in_experience_level = None,
           in_industry_preference = None\<rparr>"
  define w where "w = apply_skill_weights Recommender_init [''Python'']"
  from recommendation_lists_bounded[of ad]
  obtain r where r: "get_recommendations Recommender_init ad = Inr r"
    and b: "length (job_recommendations r) \<le> 3"
      "\<forall>j \<in> set (job_recommendations r). 0 \<le> match_score j \<and> match_score j \<le> 1"
      "length (course_recommendations r) \<le> 3"
    by (elim exE conjE)
  have sk: "get_skills ad = [''Python'']" by (simp add: get_skills_def ad_def)
  obtain im where im: "resolve_industry Recommender_init (get_skills ad) (in_industry_preference ad) = Inr im"
    using resolve_industry_init[of "get_skills ad" "in_industry_preference ad"] by (elim exE)
  obtain s0 s1 s2 where s: "similarities (job_texts Recommender_init w) = Inr [s0, s1, s2]"
    and s0: "s0 = 0 \<longleftrightarrow> set (tokenize w) \<inter> {''python'', ''java'', ''sql'', ''git'', ''agile''} = {}"
      "0 \<le> s0"
    by (rule job_sims[of w])
  have "0 < s0" using s0 unfolding w_def python_tokens by simp
  then have ne: "filter (\<lambda>(i, s). 0 < s) [(0::nat, s0), (1, s1), (2, s2)] \<noteq> []" by simp
  obtain cs where cs: "recommend_courses Recommender_init w (get_skills ad) (get_experience_level ad) = Inr cs"
    using recommend_courses_init_Inr[of w "get_skills ad" "get_experience_level ad"] by (elim exE)
  have "get_recommendations Recommender_init ad =
       Inr \<lparr>job_recommendations = sort_reverse match_score
         (map (\<lambda>(i, s). job_entry Recommender_init im (job_roles Recommender_init ! i) s)
              (filter (\<lambda>(i, s). 0 < s) [(0, s0), (1, s1), (2, s2)])),
         course_recommendations = cs, matched_industry = im\<rparr>"
    using im cs recommend_jobs_init3[OF s, of im] unfolding w_def sk[symmetric]
    by (intro get_recommendations_parts)
  then have "length (job_recommendations r) \<noteq> 0"
    using r ne by (simp add: length_sort_reverse del: filter.simps)
  then have ne: "job_recommendations r \<noteq> []" by simp
  then have "hd (job_recommendations r) \<in> set (job_recommendations r)" by simp
  then have "0 \<le> match_score (hd (job_recommendations r)) \<and> match_score (hd (job_recommendations r)) \<le> 1"
    using b(2) by simp
  then show ?thesis using r ne b(1,3) unfolding ad_def by (intro exI[of _ r]) simp
qed

text \<open>
  C2. For every profile, every recommended course has a non-empty \<open>missing_skills\<close> list,
  which holds the course's skills that are not among the candidate's; a course of the
  catalog whose every skill the candidate has is not among the recommendations.
\<close>

theorem recommended_courses_have_missing_skills:
  "\<exists>r. get_recommendations Recommender_init ad = Inr r \<and>
       (\<forall>c \<in> set (course_recommendations r).
          missing_skills c \<noteq> [] \<and>
          missing_skills c = filter (\<lambda>skill. skill \<notin> set (get_skills ad)) (course_skills c) \<and>
          \<not> set (course_skills c) \<subseteq> set (get_skills ad)) \<and>
       (\<forall>course \<in> set (courses Recommender_init).
          set (course_skills course) \<subseteq> set (get_skills ad) \<longrightarrow>
          course_title course \<notin> course_title ` set (course_recommendations r))"
proof -
  let ?us = "get_skills ad"
  obtain im jobs cs where
    c: "recommend_courses Recommender_init (apply_skill_weights Recommender_init ?us)
        ?us (get_experience_level ad) = Inr cs"
    and r: "get_recommendations Recommender_init ad =
       Inr \<lparr>job_recommendations = jobs, course_recommendations = cs, matched_industry = im\<rparr>"
    using get_recommendations_init[of ad] by (elim exE conjE)
  have mem: "\<exists>i<length (courses Recommender_init). missing ?us (courses Recommender_init ! i) \<noteq> [] \<and>
           course_title c = course_title (courses Recommender_init ! i) \<and>
           course_skills c = course_skills (courses Recommender_init ! i) \<and>
           missing_skills c = missing ?us (courses Recommender_init ! i)" if "c \<in> set cs" for c
    using recommend_courses_range(2)[OF c that] .
  have 1: "missing_skills c \<noteq> [] \<and>
          missing_skills c = filter (\<lambda>skill. skill \<notin> set ?us) (course_skills c) \<and>
          \<not> set (course_skills c) \<subseteq> set ?us" if cin: "c \<in> set cs" for c
  proof -
    obtain i where i: "missing ?us (courses Recommender_init ! i) \<noteq> []"
      "course_skills c = course_skills (courses Recommender_init ! i)"
      "missing_skills c = missing ?us (courses Recommender_init ! i)"
      using mem[OF cin] by (elim exE conjE)
    have "\<not> set (course_skills (courses Recommender_init ! i)) \<subseteq> set ?us"
      using i(1) by (simp add: missing_empty_iff)
    then show ?thesis using i by (simp add: missing_def)
  qed
  have 2: "course_title course \<notin> course_title ` set cs"
    if "course \<in> set (courses Recommender_init)" "set (course_skills course) \<subseteq> set ?us" for course
  proof
    assume "course_title course \<in> course_title ` set cs"
    then obtain c where cc: "c \<in> set cs" "course_title c = course_title course"
      by (auto simp: image_iff)
    obtain i where i: "i < length (courses Recommender_init)"
      "missing ?us (courses Recommender_init ! i) \<noteq> []"
      "course_title c = course_title (courses Recommender_init ! i)"
      using mem[OF cc(1)] by (elim exE conjE)
    have "inj_on course_title (set (courses Recommender_init))"
      using course_titles_distinct by (simp add: distinct_map)
    moreover have "courses Recommender_init ! i \<in> set (courses Recommender_init)"
      using i(1) by simp
    moreover have "course_title (courses Recommender_init ! i) = course_title course"
      using i(3) cc(2) by simp
    ultimately have "courses Recommender_init ! i = course"
      using that(1) by (simp add: inj_on_def)
    then have "missing ?us course \<noteq> []" using i(2) by simp
    then show False using that(2) by (simp add: missing_empty_iff)
  qed
  let ?r = "\<lparr>job_recommendations = jobs, course_recommendations = cs, matched_industry = im\<rparr>"
  have A: "\<forall>c \<in> set (course_recommendations ?r).
          missing_skills c \<noteq> [] \<and>
          missing_skills c = filter (\<lambda>skill. skill \<notin> set ?us) (course_skills c) \<and>
          \<not> set (course_skills c) \<subseteq> set ?us"
  proof
    fix c
    assume "c \<in> set (course_recommendations ?r)"
    then have "c \<in> set cs" by simp
    then show "missing_skills c \<noteq> [] \<and>
          missing_skills c = filter (\<lambda>skill. skill \<notin> set ?us) (course_skills c) \<and>
          \<not> set (course_skills c) \<subseteq> set ?us"
      by (rule 1)
  qed
  have B: "\<forall>course \<in> set (courses Recommender_init).
          set (course_skills course) \<subseteq> set ?us \<longrightarrow>
          course_title course \<notin> course_title ` set (course_recommendations ?r)"
  proof (intro ballI impI)
    fix course
    assume "course \<in> set (courses Recommender_init)" "set (course_skills course) \<subseteq> set ?us"
    then have "course_title course \<notin> course_title ` set cs" by (rule 2)
    then show "course_title course \<notin> course_title ` set (course_recommendations ?r)" by simp
  qed
  show ?thesis using r A B by (intro exI[of _ ?r] conjI)
qed

theorem recommended_courses_have_missing_skills_witness:
  "\<exists>r. get_recommendations Recommender_init
          \<lparr>in_skills = Some [''Python'', ''Data Structures'', ''Algorithms''],
           in_experience_level = None, in_industry_preference = None\<rparr> = Inr r \<and>
       course_recommendations r \<noteq> [] \<and>
       missing_skills (hd (course_recommendations r)) \<noteq> [] \<and>
       ''Python Programming Masterclass'' \<notin> course_title ` set (course_recommendations r)"
proof -
  define ad where "ad = \<lparr>in_skills = Some [''Python'', ''Data Structures'', ''Algorithms''],
           in_experience_level = None, in_industry_preference = None\<rparr>"
  define w where "w = apply_skill_weights Recommender_init (get_skills ad)"
  have sk: "get_skills ad = [''Python'', ''Data Structures'', ''Algorithms'']"
    by (simp add: get_skills_def ad_def)
  from recommended_courses_have_missing_skills[of ad]
  obtain r where r: "get_recommendations Recommender_init ad = Inr r"
    and a: "\<forall>c \<in> set (course_recommendations r).
          missing_skills c \<noteq> [] \<and>
          missing_skills c = filter (\<lambda>skill. skill \<notin> set (get_skills ad)) (course_skills c) \<and>
          \<not> set (course_skills c) \<subseteq> set (get_skills ad)"
    and b: "\<forall>course \<in> set (courses Recommender_init).
          set (course_skills course) \<subseteq> set (get_skills ad) \<longrightarrow>
          course_title course \<notin> course_title ` set (course_recommendations r)"
    by (elim exE conjE)
  have "courses Recommender_init ! 0 \<in> set (courses Recommender_init)"
    by (simp add: courses_init_length)
  moreover have "set (course_skills (courses Recommender_init ! 0)) \<subseteq> set (get_skills ad)"
    by (simp add: courses_init_nth sk)
  ultimately have "course_title (courses Recommender_init ! 0) \<notin> course_title ` set (course_recommendations r)"
    using b by simp
  then have excl: "''Python Programming Masterclass'' \<notin> course_title ` set (course_recommendations r)"
    by (simp add: courses_init_nth)
  obtain im where im: "resolve_industry Recommender_init (get_skills ad) (in_industry_preference ad) = Inr im"
    using resolve_industry_init[of "get_skills ad" "in_industry_preference ad"] by (elim exE)
  obtain jobs where jobs: "recommend_jobs Recommender_init w im = Inr jobs"
    using recommend_jobs_init_Inr[of w im] by (elim exE)
  obtain s0 s1 s2 where s: "similarities (course_texts Recommender_init w) = Inr [s0, s1, s2]"
    by (rule course_sims[of w])
  have m: "missing (get_skills ad) (courses Recommender_init ! 1) \<noteq> []"
    by (simp add: missing_def courses_init_nth sk)
  have "get_recommendations Recommender_init ad =
       Inr \<lparr>job_recommendations = jobs,
         course_recommendations = sort_reverse course_key
         (map (\<lambda>(i, s). course_entry Recommender_init (get_skills ad) (get_experience_level ad)
                           (dict_get experience_levels (lower (get_experience_level ad)) 1)
                           (courses Recommender_init ! i) s)
              (filter (\<lambda>(i, s). missing (get_skills ad) (courses Recommender_init ! i) \<noteq> [])
                      [(0, s0), (1, s1), (2, s2)])),
         matched_industry = im\<rparr>"
    using im jobs recommend_courses_init3[OF s, of "get_skills ad" "get_experience_level ad"]
    unfolding w_def by (intro get_recommendations_parts)
  then have "length (course_recommendations r) \<noteq> 0"
    using r m by (simp add: length_sort_reverse)
  then have ne: "course_recommendations r \<noteq> []" by simp
  then have "hd (course_recommendations r) \<in> set (course_recommendations r)" by simp
  from bspec[OF a this] have "missing_skills (hd (course_recommendations r)) \<noteq> []"
    by (elim conjE)
  then show ?thesis using r ne excl unfolding ad_def by (intro exI[of _ r]) simp
qed










text \<open>
  C6. For every skill list, the Skill Weighting of the fixed weight table is the one the
  specification words: the space-join of each skill token repeated \<open>round (w * 10)\<close>
  times, with \<open>w\<close> the skill's weight and \<open>1.0\<close> when the table has none; a skill without
  a weight is repeated ten times. (\<^verbatim>\<open>int\<close> truncates, and on the products of the table,
  12, 11, 13 and 10, truncating and rounding agree.)
\<close>

theorem skill_weighting_repeats_tokens:
  "apply_skill_weights Recommender_init skills =
     weight_spec (skill_weights Recommender_init) skills \<and>
   (map_of (skill_weights Recommender_init) skill = None \<longrightarrow>
      apply_skill_weights Recommender_init [skill] = join '' '' (replicate 10 skill))"
proof
  show "apply_skill_weights Recommender_init skills =
     weight_spec (skill_weights Recommender_init) skills"
    by (simp only: apply_skill_weights_def weight_spec_def weighted_tokens_init)
  show "map_of (skill_weights Recommender_init) skill = None \<longrightarrow>
      apply_skill_weights Recommender_init [skill] = join '' '' (replicate 10 skill)"
    by (simp add: apply_skill_weights_def dict_get_def py_int_def)
qed

theorem skill_weighting_repeats_tokens_witness:
  "map_of (skill_weights Recommender_init) ''Welding'' = None \<and>
   apply_skill_weights Recommender_init [''Welding''] =
     ''Welding Welding Welding Welding Welding Welding Welding Welding Welding Welding'' \<and>
   apply_skill_weights Recommender_init [''Java'', ''Machine Learning''] =
     weight_spec (skill_weights Recommender_init) [''Java'', ''Machine Learning''] \<and>
   weight_spec (skill_weights Recommender_init) [''Java'', ''Machine Learning''] =
     ''Java Java Java Java Java Java Java Java Java Java Java Machine Learning Machine Learning Machine Learning Machine Learning Machine Learning Machine Learning Machine Learning Machine Learning Machine Learning Machine Learning Machine Learning Machine Learning Machine Learning''"
proof -
  have n: "map_of (skill_weights Recommender_init) ''Welding'' = None"
    by (simp add: Recommender_init_def)
  have j: "join '' '' (replicate 10 ''Welding'') =
     ''Welding Welding Welding Welding Welding Welding Welding Welding Welding Welding''"
    by code_simp
  have "apply_skill_weights Recommender_init [''Welding''] = join '' '' (replicate 10 ''Welding'')"
    using skill_weighting_repeats_tokens[of "[]" "''Welding''"] n by simp
  then have a: "apply_skill_weights Recommender_init [''Welding''] =
     ''Welding Welding Welding Welding Welding Welding Welding Welding Welding Welding''"
    using j by simp
  have b: "apply_skill_weights Recommender_init [''Java'', ''Machine Learning''] =
     weight_spec (skill_weights Recommender_init) [''Java'', ''Machine Learning'']"
    using skill_weighting_repeats_tokens[of "[''Java'', ''Machine Learning'']" "''Welding''"]
    by (elim conjE)
  have c: "apply_skill_weights Recommender_init [''Java'', ''Machine Learning''] =
     ''Java Java Java Java Java Java Java Java Java Java Java Machine Learning Machine Learning Machine Learning Machine Learning Machine Learning Machine Learning Machine Learning Machine Learning Machine Learning Machine Learning Machine Learning Machine Learning Machine Learning''"
    by code_simp
  show ?thesis using n a b c by simp
qed

text \<open>
  C7. For the skills \<^verbatim>\<open>Docker\<close>, \<^verbatim>\<open>Kubernetes\<close>, \<^verbatim>\<open>AWS\<close> and the experience level
  \<^verbatim>\<open>"beginner"\<close>, the course \<^verbatim>\<open>Cloud Computing Essentials\<close> is recommended once, with the
  level \<^verbatim>\<open>"Beginner"\<close> and the missing skills \<^verbatim>\<open>Cloud Architecture\<close> and \<^verbatim>\<open>DevOps\<close>. Its
  \<open>experience_match\<close> is \<open>False\<close>: the flag compares the raw strings \<^verbatim>\<open>"Beginner"\<close> and
  \<^verbatim>\<open>"beginner"\<close>, whereas the ordinal levels of the same loop, taken after \<^verbatim>\<open>lower()\<close>,
  are equal.
\<close>

theorem beginner_experience_match_false:
  "dict_get experience_levels (lower ''Beginner'') 1 =
     dict_get experience_levels (lower ''beginner'') 1 \<and>
   (\<exists>r. get_recommendations Recommender_init
          \<lparr>in_skills = Some [''Docker'', ''Kubernetes'', ''AWS''],
           in_experience_level = Some ''beginner'',
           in_industry_preference = None\<rparr> = Inr r \<and>
        map course_level
            (filter (\<lambda>c. course_title c = ''Cloud Computing Essentials'') (course_recommendations r)) =
          [''Beginner''] \<and>
        map missing_skills
            (filter (\<lambda>c. course_title c = ''Cloud Computing Essentials'') (course_recommendations r)) =
          [[''Cloud Architecture'', ''DevOps'']] \<and>
        map experience_match
            (filter (\<lambda>c. course_title c = ''Cloud Computing Essentials'') (course_recommendations r)) =
          [False])"
proof
  show "dict_get experience_levels (lower ''Beginner'') 1 =
     dict_get experience_levels (lower ''beginner'') 1"
    by (simp only: beginner_levels)
  let ?S = "[''Docker'', ''Kubernetes'', ''AWS'']"
  let ?ad = "\<lparr>in_skills = Some ?S, in_experience_level = Some ''beginner'',
           in_industry_preference = None\<rparr>"
  let ?w = "apply_skill_weights Recommender_init ?S"
  let ?P = "\<lambda>c. course_title c = ''Cloud Computing Essentials''"
  have sk: "get_skills ?ad = ?S" by (simp add: get_skills_def)
  have el: "get_experience_level ?ad = ''beginner''" by (simp add: get_experience_level_def)
  obtain im where im: "resolve_industry Recommender_init (get_skills ?ad) (in_industry_preference ?ad) = Inr im"
    using resolve_industry_init[of "get_skills ?ad" "in_industry_preference ?ad"] by (elim exE)
  obtain jobs where jobs: "recommend_jobs Recommender_init ?w im = Inr jobs"
    using recommend_jobs_init_Inr[of ?w im] by (elim exE)
  obtain s0 s1 s2 where s: "similarities (course_texts Recommender_init ?w) = Inr [s0, s1, s2]"
    by (rule course_sims[of ?w])
  let ?e = "\<lambda>i s. course_entry Recommender_init ?S ''beginner'' 0 (courses Recommender_init ! i) s"
  have m: "missing ?S (courses Recommender_init ! 0) = [''Python'', ''Data Structures'', ''Algorithms'']"
     "missing ?S (courses Recommender_init ! Suc 0) = [''Python'', ''Machine Learning'', ''Statistics'']"
     "missing ?S (courses Recommender_init ! 2) = [''Cloud Architecture'', ''DevOps'']"
    unfolding courses_init_nth by (simp_all add: missing_def)
  have c: "recommend_courses Recommender_init ?w ?S ''beginner'' =
     Inr (sort_reverse course_key [?e 0 s0, ?e (Suc 0) s1, ?e 2 s2])"
    using recommend_courses_init3[OF s, of ?S "''beginner''"] unfolding beginner_levels
    by (simp add: m)
  let ?r = "\<lparr>job_recommendations = jobs,
             course_recommendations = sort_reverse course_key [?e 0 s0, ?e (Suc 0) s1, ?e 2 s2],
             matched_industry = im\<rparr>"
  have g: "get_recommendations Recommender_init ?ad = Inr ?r"
    using im jobs c by (intro get_recommendations_parts) (simp_all only: sk el)
  have t: "\<not> ?P (?e 0 s0)" "\<not> ?P (?e (Suc 0) s1)" "?P (?e 2 s2)"
    by (simp_all add: course_entry_zero courses_init_nth)
  have f: "filter ?P (course_recommendations ?r) = [?e 2 s2]"
    unfolding Recommendations.select_convs filter_sort_reverse
    using t by (simp add: sort_reverse_def)
  show "\<exists>r. get_recommendations Recommender_init ?ad = Inr r \<and>
        map course_level (filter ?P (course_recommendations r)) = [''Beginner''] \<and>
        map missing_skills (filter ?P (course_recommendations r)) =
          [[''Cloud Architecture'', ''DevOps'']] \<and>
        map experience_match (filter ?P (course_recommendations r)) = [False]"
  proof (intro exI[of _ ?r] conjI)
    show "get_recommendations Recommender_init ?ad = Inr ?r" by (rule g)
    show "map course_level (filter ?P (course_recommendations ?r)) = [''Beginner'']"
      unfolding f by (simp add: course_entry_zero courses_init_nth)
    show "map missing_skills (filter ?P (course_recommendations ?r)) =
          [[''Cloud Architecture'', ''DevOps'']]"
      unfolding f by (simp add: course_entry_zero m)
    show "map experience_match (filter ?P (course_recommendations ?r)) = [False]"
      unfolding f by (simp add: course_entry_zero courses_init_nth)
  qed
qed

text \<open>
  C8. For a profile without skills (the key absent, or an empty list) the weighted text is
  the empty string; its row is the zero vector, which \<open>normalize_l2\<close> leaves as it is, so
  the similarity to every job text and to every course text is \<open>0\<close>, and nothing is
  raised: \<open>get_recommendations\<close> returns, with no job recommendation and with the three
  courses, each of relevance \<open>0\<close>, ordered by skill importance alone.
\<close>

theorem empty_skills_degrade:
  assumes "get_skills ad = []"
  shows "apply_skill_weights Recommender_init (get_skills ad) = [] \<and>
     similarities (job_texts Recommender_init []) = Inr [0, 0, 0] \<and>
     similarities (course_texts Recommender_init []) = Inr [0, 0, 0] \<and>
     (\<exists>r. get_recommendations Recommender_init ad = Inr r \<and>
          job_recommendations r = [] \<and>
          map course_title (course_recommendations r) =
            [''Machine Learning Fundamentals'', ''Python Programming Masterclass'',
             ''Cloud Computing Essentials''] \<and>
          map relevance_score (course_recommendations r) = [0, 0, 0])"
proof (intro conjI)
  show "apply_skill_weights Recommender_init (get_skills ad) = []"
    unfolding assms by (rule weighted_tokens_Nil)
  show "similarities (job_texts Recommender_init []) = Inr [0, 0, 0]"
    by (rule empty_query_job_sims)
  show "similarities (course_texts Recommender_init []) = Inr [0, 0, 0]"
    by (rule empty_query_course_sims)
  obtain im where im: "resolve_industry Recommender_init (get_skills ad) (in_industry_preference ad) = Inr im"
    using resolve_industry_init[of "get_skills ad" "in_industry_preference ad"] by (elim exE)
  obtain cs where cs: "recommend_courses Recommender_init [] [] (get_experience_level ad) = Inr cs"
    and c: "map course_title cs = [''Machine Learning Fundamentals'', ''Python Programming Masterclass'',
                            ''Cloud Computing Essentials'']"
     "map relevance_score cs = [0, 0, 0]"
    using empty_skills_courses[of "get_experience_level ad"] by (elim exE conjE)
  have j: "recommend_jobs Recommender_init [] im = Inr []"
    using recommend_jobs_init3[OF empty_query_job_sims, of im] by (simp add: sort_reverse_def)
  have "get_recommendations Recommender_init ad =
     Inr \<lparr>job_recommendations = [], course_recommendations = cs, matched_industry = im\<rparr>"
    using im j cs by (intro get_recommendations_parts) (simp_all only: assms weighted_tokens_Nil)
  then show "\<exists>r. get_recommendations Recommender_init ad = Inr r \<and>
          job_recommendations r = [] \<and>
          map course_title (course_recommendations r) =
            [''Machine Learning Fundamentals'', ''Python Programming Masterclass'',
             ''Cloud Computing Essentials''] \<and>
          map relevance_score (course_recommendations r) = [0, 0, 0]"
    using c by simp
qed

theorem empty_skills_degrade_witness:
  "get_skills \<lparr>in_skills = Some [], in_experience_level = None, in_industry_preference = None\<rparr> = [] \<and>
   (\<exists>r. get_recommendations Recommender_init
          \<lparr>in_skills = Some [], in_experience_level = None, in_industry_preference = None\<rparr> = Inr r \<and>
        job_recommendations r = [] \<and>
        map course_title (course_recommendations r) =
            [''Machine Learning Fundamentals'', ''Python Programming Masterclass'',
             ''Cloud Computing Essentials''] \<and>
        map relevance_score (course_recommendations r) = [0, 0, 0] \<and>
        matched_industry r = Some ''web_development'')"
proof -
  let ?ad = "\<lparr>in_skills = Some [], in_experience_level = None, in_industry_preference = None\<rparr>"
  have e: "get_skills ?ad = []" by (simp add: get_skills_def)
  from empty_skills_degrade[OF e]
  obtain r where r: "get_recommendations Recommender_init ?ad = Inr r"
    and p: "job_recommendations r = []"
      "map course_title (course_recommendations r) =
            [''Machine Learning Fundamentals'', ''Python Programming Masterclass'',
             ''Cloud Computing Essentials'']"
      "map relevance_score (course_recommendations r) = [0, 0, 0]"
    by (elim exE conjE)
  have "get_industry_match Recommender_init [] = Inr (Some ''web_development'')"
    by code_simp
  then have "resolve_industry Recommender_init (get_skills ?ad) (in_industry_preference ?ad) =
      Inr (Some ''web_development'')"
    by (simp add: resolve_industry_def e)
  then have "matched_industry r = Some ''web_development''"
    using get_recommendations_matched[OF r] by simp
  then show ?thesis using e r p by (intro conjI exI[of _ r])
qed

text \<open>
  C9. The Industry Matcher is a function of the catalog and the skill list alone (it reads
  no other state), so two calls on the same list return the same result; the result
  depends on the set of skills only. It is the first industry, in the declared order of
  the catalog, whose score is maximal: every industry before it scores strictly less and
  every industry after it scores at most as much.
\<close>

theorem industry_match_deterministic_first_maximum:
  "(set S = set S' \<longrightarrow>
      get_industry_match Recommender_init S = get_industry_match Recommender_init S') \<and>
   (\<exists>before m after.
      map (\<lambda>(industry, cluster_skills). (industry, cluster_score S cluster_skills))
          (industry_clusters Recommender_init) = before @ m # after \<and>
      get_industry_match Recommender_init S = Inr (Some (fst m)) \<and>
      (\<forall>p \<in> set before. snd p < snd m) \<and>
      (\<forall>p \<in> set after. snd p \<le> snd m))"
proof
  show "set S = set S' \<longrightarrow>
      get_industry_match Recommender_init S = get_industry_match Recommender_init S'"
    using get_industry_match_cong by blast
  define scores where "scores = map (\<lambda>(industry, cluster_skills). (industry, cluster_score S cluster_skills))
          (industry_clusters Recommender_init)"
  have "length scores = 3" by (simp add: scores_def Recommender_init_def)
  then obtain s rest where sr: "scores = s # rest" by (cases scores) auto
  have g: "get_industry_match Recommender_init S = Inr (Some (fst (max_key snd s rest)))"
    using sr by (simp add: get_industry_match_def industry_scores_init_map scores_def[symmetric])
  obtain ys zs where "s # rest = ys @ max_key snd s rest # zs"
     "\<forall>y \<in> set ys. snd y < snd (max_key snd s rest)"
     "\<forall>z \<in> set zs. snd z \<le> snd (max_key snd s rest)"
    using max_key_first[of s rest snd] by blast
  then show "\<exists>before m after.
      map (\<lambda>(industry, cluster_skills). (industry, cluster_score S cluster_skills))
          (industry_clusters Recommender_init) = before @ m # after \<and>
      get_industry_match Recommender_init S = Inr (Some (fst m)) \<and>
      (\<forall>p \<in> set before. snd p < snd m) \<and>
      (\<forall>p \<in> set after. snd p \<le> snd m)"
    using g sr unfolding scores_def[symmetric] by metis
qed

lemma match_docker_python:
  "get_industry_match Recommender_init [''Docker'', ''Python''] = Inr (Some ''web_development'')"
  by code_simp

lemma scores_docker_python:
  "map (\<lambda>(industry, cluster_skills). (industry, cluster_score [''Docker'', ''Python''] cluster_skills))
          (industry_clusters Recommender_init) =
     [(''web_development'', 1/4), (''data_science'', 1/4), (''cloud_devops'', 1/4)]"
  by code_simp

theorem industry_match_deterministic_first_maximum_witness:
  "set [''Docker'', ''Python''] = set [''Python'', ''Docker'', ''Docker''] \<and>
   get_industry_match Recommender_init [''Python'', ''Docker'', ''Docker''] =
     Inr (Some ''web_development'') \<and>
   map (\<lambda>(industry, cluster_skills). (industry, cluster_score [''Docker'', ''Python''] cluster_skills))
          (industry_clusters Recommender_init) =
     [(''web_development'', 1/4), (''data_science'', 1/4), (''cloud_devops'', 1/4)]"
proof -
  have s: "set [''Docker'', ''Python''] = set [''Python'', ''Docker'', ''Docker'']"
    by auto
  have "get_industry_match Recommender_init [''Docker'', ''Python''] =
      get_industry_match Recommender_init [''Python'', ''Docker'', ''Docker'']"
    using industry_match_deterministic_first_maximum[of "[''Docker'', ''Python'']" "[''Python'', ''Docker'', ''Docker'']"] s
    by (elim conjE impE)
  then show ?thesis using s match_docker_python scores_docker_python by simp
qed

text \<open>
  C10. The course loop tests \<^verbatim>\<open>if missing_skills:\<close> only, not the similarity. For the
  profile with the one skill \<^verbatim>\<open>Welding\<close>, every job text and every course text has
  similarity \<open>0\<close> to the weighted skill text: no job is recommended, and all three courses
  are, each with relevance \<open>0\<close> and a non-empty \<open>missing_skills\<close> list, ordered by the key
  \<open>0.3 * skill_importance\<close>.
\<close>

theorem zero_similarity_courses_recommended:
  "similarities (course_texts Recommender_init
      (apply_skill_weights Recommender_init [''Welding''])) = Inr [0, 0, 0] \<and>
   similarities (job_texts Recommender_init
      (apply_skill_weights Recommender_init [''Welding''])) = Inr [0, 0, 0] \<and>
   (\<exists>r. get_recommendations Recommender_init
          \<lparr>in_skills = Some [''Welding''], in_experience_level = None,
           in_industry_preference = None\<rparr> = Inr r \<and>
        job_recommendations r = [] \<and>
        map course_title (course_recommendations r) =
          [''Machine Learning Fundamentals'', ''Python Programming Masterclass'',
           ''Cloud Computing Essentials''] \<and>
        map relevance_score (course_recommendations r) = [0, 0, 0] \<and>
        map missing_skills (course_recommendations r) =
          [[''Python'', ''Machine Learning'', ''Statistics''],
           [''Python'', ''Data Structures'', ''Algorithms''],
           [''AWS'', ''Cloud Architecture'', ''DevOps'']] \<and>
        map course_key (course_recommendations r) =
          map (\<lambda>c. 0.3 * skill_importance c) (course_recommendations r) \<and>
        map course_key (course_recommendations r) = [0.35, 0.32, 0.32])"
proof (intro conjI)
  let ?ad = "\<lparr>in_skills = Some [''Welding''], in_experience_level = None,
           in_industry_preference = None\<rparr>"
  let ?w = "apply_skill_weights Recommender_init [''Welding'']"
  show "similarities (course_texts Recommender_init ?w) = Inr [0, 0, 0]"
    by (rule welding_course_sims)
  show "similarities (job_texts Recommender_init ?w) = Inr [0, 0, 0]"
    by (rule welding_job_sims)
  have sk: "get_skills ?ad = [''Welding'']" by (simp add: get_skills_def)
  obtain im where im: "resolve_industry Recommender_init (get_skills ?ad) (in_industry_preference ?ad) = Inr im"
    using resolve_industry_init[of "get_skills ?ad" "in_industry_preference ?ad"] by (elim exE)
  obtain cs where cs: "recommend_courses Recommender_init ?w [''Welding''] (get_experience_level ?ad) = Inr cs"
    and c: "map course_title cs = [''Machine Learning Fundamentals'', ''Python Programming Masterclass'',
                            ''Cloud Computing Essentials'']"
     "map relevance_score cs = [0, 0, 0]"
     "map missing_skills cs =
       [[''Python'', ''Machine Learning'', ''Statistics''],
        [''Python'', ''Data Structures'', ''Algorithms''],
        [''AWS'', ''Cloud Architecture'', ''DevOps'']]"
     "map course_key cs = [0.35, 0.32, 0.32]"
    using welding_courses[of "get_experience_level ?ad"] by (elim exE conjE)
  have "\<forall>x \<in> set (map relevance_score cs). x = 0" unfolding c(2) by simp
  then have "\<forall>c \<in> set cs. relevance_score c = 0" by simp
  then have k: "map course_key cs = map (\<lambda>c. 0.3 * skill_importance c) cs"
    by (simp add: course_key_def)
  have j: "recommend_jobs Recommender_init ?w im = Inr []"
    using recommend_jobs_init3[OF welding_job_sims, of im] by (simp add: sort_reverse_def)
  let ?r = "\<lparr>job_recommendations = [], course_recommendations = cs, matched_industry = im\<rparr>"
  have g: "get_recommendations Recommender_init ?ad = Inr ?r"
    using im j cs by (intro get_recommendations_parts) (simp_all only: sk)
  show "\<exists>r. get_recommendations Recommender_init ?ad = Inr r \<and>
        job_recommendations r = [] \<and>
        map course_title (course_recommendations r) =
          [''Machine Learning Fundamentals'', ''Python Programming Masterclass'',
           ''Cloud Computing Essentials''] \<and>
        map relevance_score (course_recommendations r) = [0, 0, 0] \<and>
        map missing_skills (course_recommendations r) =
          [[''Python'', ''Machine Learning'', ''Statistics''],
           [''Python'', ''Data Structures'', ''Algorithms''],
           [''AWS'', ''Cloud Architecture'', ''DevOps'']] \<and>
        map course_key (course_recommendations r) =
          map (\<lambda>c. 0.3 * skill_importance c) (course_recommendations r) \<and>
        map course_key (course_recommendations r) = [0.35, 0.32, 0.32]"
  proof (intro exI[of _ ?r] conjI)
    show "get_recommendations Recommender_init ?ad = Inr ?r" by (rule g)
    show "job_recommendations ?r = []" by simp
    show "map course_title (course_recommendations ?r) =
          [''Machine Learning Fundamentals'', ''Python Programming Masterclass'',
           ''Cloud Computing Essentials'']"
      using c(1) by (simp only: Recommendations.select_convs)
    show "map relevance_score (course_recommendations ?r) = [0, 0, 0]"
      using c(2) by (simp only: Recommendations.select_convs)
    show "map missing_skills (course_recommendations ?r) =
          [[''Python'', ''Machine Learning'', ''Statistics''],
           [''Python'', ''Data Structures'', ''Algorithms''],
           [''AWS'', ''Cloud Architecture'', ''DevOps'']]"
      using c(3) by (simp only: Recommendations.select_convs)
    show "map course_key (course_recommendations ?r) =
          map (\<lambda>c. 0.3 * skill_importance c) (course_recommendations ?r)"
      using k by (simp only: Recommendations.select_convs)
    show "map course_key (course_recommendations ?r) = [0.35, 0.32, 0.32]"
      using c(4) by (simp only: Recommendations.select_convs)
  qed
qed

end
